theory Spec2Isabelle
  imports Main
begin

section \<open>JavaScript strings\<close>

text \<open>
  A JavaScript string is a sequence of UTF-16 code units. The model covers the strings
  whose code units are below 256 and reads each \<^typ>\<open>char\<close> as one code unit (ASCII and
  Latin-1). The string methods the extension calls are written out on that range.
\<close>

definition dquote :: char where
  "dquote = CHR 0x22"

definition squote :: char where
  "squote = CHR 0x27"

definition bslash :: char where
  "bslash = CHR 0x5C"

text \<open>
  White space as \<open>String.prototype.trim\<close> and the regular expression class \<open>\s\<close> see it:
  TAB, LF, VT, FF, CR, SPACE and NO-BREAK SPACE are the members below 256.
\<close>

definition isWhiteSpace :: "char \<Rightarrow> bool" where
  "isWhiteSpace c = (c \<in> set [CHR 0x09, CHR 0x0A, CHR 0x0B, CHR 0x0C, CHR 0x0D, CHR 0x20, CHR 0xA0])"

definition trim :: "string \<Rightarrow> string" where
  "trim s = rev (dropWhile isWhiteSpace (rev (dropWhile isWhiteSpace s)))"

text \<open>
  \<open>String.prototype.toLowerCase\<close>: below 256 the letters with a lower-case partner are
  A to Z and U+00C0 to U+00DE without the multiplication sign U+00D7; the partner is 32
  code units higher.
\<close>

definition lowerChar :: "char \<Rightarrow> char" where
  "lowerChar c =
     (let n = (of_char c :: nat)
      in if (65 \<le> n \<and> n \<le> 90) \<or> (192 \<le> n \<and> n \<le> 222 \<and> n \<noteq> 215)
         then char_of (n + 32) else c)"

definition toLowerCase :: "string \<Rightarrow> string" where
  "toLowerCase s = map lowerChar s"

definition startsWith :: "string \<Rightarrow> string \<Rightarrow> bool" where
  "startsWith s p = (take (length p) s = p)"

text \<open>
  \<open>s.replace(/c/g, r)\<close> for a pattern that is one literal character and a replacement
  text without \<open>$\<close>: every occurrence of the character becomes \<open>r\<close>.
\<close>

fun replaceAll :: "char \<Rightarrow> string \<Rightarrow> string \<Rightarrow> string" where
  "replaceAll c r [] = []"
| "replaceAll c r (x # xs) = (if x = c then r @ replaceAll c r xs else x # replaceAll c r xs)"

text \<open>
  \<open>indexOf\<close> and \<open>search\<close> return \<open>-1\<close> when nothing is found, so the index is an
  \<^typ>\<open>int\<close>. \<open>firstIndex P xs i\<close> scans \<open>xs\<close>, whose head has index \<open>i\<close>.
\<close>

fun firstIndex :: "(char \<Rightarrow> bool) \<Rightarrow> string \<Rightarrow> nat \<Rightarrow> int" where
  "firstIndex P [] i = - 1"
| "firstIndex P (x # xs) i = (if P x then int i else firstIndex P xs (Suc i))"

definition indexOf :: "string \<Rightarrow> char \<Rightarrow> nat \<Rightarrow> int" where
  "indexOf s c from = firstIndex (\<lambda>x. x = c) (drop from s) from"

definition searchWhiteSpace :: "string \<Rightarrow> int" where
  "searchWhiteSpace s = firstIndex isWhiteSpace s 0"

definition slice :: "string \<Rightarrow> nat \<Rightarrow> nat \<Rightarrow> string" where
  "slice s a b = take (b - a) (drop a s)"

section \<open>Command builder\<close>

datatype platform = Win32 | Posix

definition quoteForCommandArgument :: "platform \<Rightarrow> string \<Rightarrow> string" where
  "quoteForCommandArgument p v =
     (if p = Win32 then [dquote] @ replaceAll dquote [dquote, dquote] v @ [dquote]
      else [squote] @ replaceAll squote [squote, bslash, squote, squote] v @ [squote])"


section \<open>Descriptor registry\<close>

text \<open>
  \<open>ScriptDescriptor\<close>. \<open>getDefaultInterpreters\<close> returns a constant list in every
  descriptor of the source, so the field holds that list. \<open>buildRunCommand\<close> reads
  \<open>process.platform\<close> through \<open>quoteForCommandArgument\<close>; the platform is its first
  argument here.
\<close>

record scriptDescriptor =
  extension :: string
  label :: string
  languageId :: "string option"
  interpreterSetting :: "string option"
  getDefaultInterpreters :: "string list"
  buildRunCommand :: "platform \<Rightarrow> string \<Rightarrow> string \<Rightarrow> string"

definition plainRunCommand :: "platform \<Rightarrow> string \<Rightarrow> string \<Rightarrow> string" where
  "plainRunCommand p interpreter scriptPath =
     interpreter @ '' '' @ quoteForCommandArgument p scriptPath"

definition powershellRunCommand :: "platform \<Rightarrow> string \<Rightarrow> string \<Rightarrow> string" where
  "powershellRunCommand p interpreter scriptPath =
     interpreter @ '' -NoProfile -ExecutionPolicy Bypass -File '' @ quoteForCommandArgument p scriptPath"

definition BUILTIN_SCRIPT_DESCRIPTORS :: "scriptDescriptor list" where
  "BUILTIN_SCRIPT_DESCRIPTORS =
    [\<lparr>extension = ''.ps1'', label = ''PowerShell (.ps1)'', languageId = Some ''powershell'',
      interpreterSetting = Some ''interpreters.powershell'',
      getDefaultInterpreters = [''pwsh'', ''powershell''], buildRunCommand = powershellRunCommand\<rparr>,
     \<lparr>extension = ''.sh'', label = ''Bash (.sh)'', languageId = Some ''shellscript'',
      interpreterSetting = Some ''interpreters.bash'',
      getDefaultInterpreters = [''bash''], buildRunCommand = plainRunCommand\<rparr>,
     \<lparr>extension = ''.zsh'', label = ''Zsh (.zsh)'', languageId = Some ''shellscript'',
      interpreterSetting = Some ''interpreters.bash'',
      getDefaultInterpreters = [''bash''], buildRunCommand = plainRunCommand\<rparr>,
     \<lparr>extension = ''.py'', label = ''Python (.py)'', languageId = Some ''python'',
      interpreterSetting = Some ''interpreters.python'',
      getDefaultInterpreters = [''python''], buildRunCommand = plainRunCommand\<rparr>,
     \<lparr>extension = ''.js'', label = ''JavaScript (.js)'', languageId = Some ''javascript'',
      interpreterSetting = Some ''interpreters.node'',
      getDefaultInterpreters = [''node''], buildRunCommand = plainRunCommand\<rparr>,
     \<lparr>extension = ''.ts'', label = ''TypeScript (.ts)'', languageId = Some ''typescript'',
      interpreterSetting = Some ''interpreters.tsNode'',
      getDefaultInterpreters = [''ts-node''], buildRunCommand = plainRunCommand\<rparr>]"

text \<open>\<open>new Map(pairs)\<close> inserts the pairs in order, a later key replacing an earlier one.\<close>

definition BUILTIN_BY_EXTENSION :: "string \<rightharpoonup> scriptDescriptor" where
  "BUILTIN_BY_EXTENSION =
     foldl (\<lambda>m d. m(extension d \<mapsto> d)) Map.empty BUILTIN_SCRIPT_DESCRIPTORS"

definition normalizeExtension :: "string \<Rightarrow> string" where
  "normalizeExtension ext =
     (let normalizedValue = toLowerCase (trim ext)
      in if normalizedValue = [] then []
         else if startsWith normalizedValue ''.'' then normalizedValue
         else ''.'' @ normalizedValue)"

section \<open>Interpreter availability\<close>

text \<open>
  What \<open>isCommandAvailable\<close> asks of its surroundings: the platform, whether
  \<open>vscode.workspace.fs.stat\<close> succeeds on a path, and whether the PATH search utility
  (\<open>where.exe\<close> on win32, \<open>which\<close> elsewhere) exits with success for a name.
\<close>

record environment =
  processPlatform :: platform
  statSucceeds :: "string \<Rightarrow> bool"
  pathSearchSucceeds :: "string \<Rightarrow> bool"

definition isPathSeparator :: "char \<Rightarrow> bool" where
  "isPathSeparator c = (c = CHR ''/'' \<or> c = bslash)"

definition isWindowsDeviceRoot :: "char \<Rightarrow> bool" where
  "isWindowsDeviceRoot c =
     (let n = (of_char c :: nat) in (65 \<le> n \<and> n \<le> 90) \<or> (97 \<le> n \<and> n \<le> 122))"

text \<open>Node's \<open>path.isAbsolute\<close>, in its win32 and its posix variant.\<close>

definition isAbsolute :: "platform \<Rightarrow> string \<Rightarrow> bool" where
  "isAbsolute p s =
     (if p = Win32 then
        s \<noteq> [] \<and> (isPathSeparator (s ! 0) \<or>
          (length s > 2 \<and> isWindowsDeviceRoot (s ! 0) \<and> s ! 1 = CHR '':'' \<and> isPathSeparator (s ! 2)))
      else s \<noteq> [] \<and> s ! 0 = CHR ''/'')"

definition extractCommandToken :: "string \<Rightarrow> string" where
  "extractCommandToken command =
     (let trimmed = trim command
      in if trimmed = [] then []
         else if (startsWith trimmed [dquote] \<or> startsWith trimmed [squote])
                 \<and> indexOf trimmed (trimmed ! 0) 1 > 1
         then slice trimmed 1 (nat (indexOf trimmed (trimmed ! 0) 1))
         else (let separatorIndex = searchWhiteSpace trimmed
               in if separatorIndex = - 1 then trimmed
                  else slice trimmed 0 (nat separatorIndex)))"

definition isCommandAvailable :: "environment \<Rightarrow> string \<Rightarrow> bool" where
  "isCommandAvailable env command =
     (let executable = extractCommandToken command
      in if executable = [] then False
         else if isAbsolute (processPlatform env) executable then statSucceeds env executable
         else pathSearchSucceeds env executable)"

section \<open>Name validation\<close>

text \<open>
  Node's \<open>path.extname\<close> and \<open>path.parse(...).name\<close> on a file name without a path
  separator and without a drive prefix, where the win32 and the posix variant agree:
  \<open>validateScriptNameInput\<close> reaches them only after it has refused every name with
  \<open>/\<close>, \<open>\\<close> or \<open>:\<close>. The extension runs from the last period to the end, and is
  empty when there is no period, when the last period is the first character, and for
  the name \<open>..\<close>; \<open>name\<close> is what stands before the extension.
\<close>

definition extname :: "string \<Rightarrow> string" where
  "extname s =
     (if CHR ''.'' \<notin> set s then []
      else (let startDot = length s - Suc (length (takeWhile (\<lambda>c. c \<noteq> CHR ''.'') (rev s)))
            in if startDot = 0 \<or> s = ''..'' then [] else drop startDot s))"

definition parseName :: "string \<Rightarrow> string" where
  "parseName s = take (length s - length (extname s)) s"

definition WINDOWS_RESERVED_BASENAMES :: "string list" where
  "WINDOWS_RESERVED_BASENAMES =
     [''con'', ''prn'', ''aux'', ''nul'',
      ''com1'', ''com2'', ''com3'', ''com4'', ''com5'', ''com6'', ''com7'', ''com8'', ''com9'',
      ''lpt1'', ''lpt2'', ''lpt3'', ''lpt4'', ''lpt5'', ''lpt6'', ''lpt7'', ''lpt8'', ''lpt9'']"

text \<open>The character class \<open>[<>:"|?*\x00-\x1F]\<close>.\<close>

definition isInvalidFilenameChar :: "char \<Rightarrow> bool" where
  "isInvalidFilenameChar c =
     (c \<in> set [CHR ''<'', CHR ''>'', CHR '':'', dquote, CHR ''|'', CHR ''?'', CHR ''*'']
      \<or> (of_char c :: nat) \<le> 31)"

text \<open>\<open>validateScriptNameInput\<close> returns the message to show, or \<open>undefined\<close> (here \<open>None\<close>).\<close>

definition validateScriptNameInput :: "string \<Rightarrow> string \<Rightarrow> string option" where
  "validateScriptNameInput v ext =
     (let trimmedValue = trim v
      in if trimmedValue = [] then Some ''Script name is required.''
         else if trimmedValue = ''.'' \<or> trimmedValue = ''..'' then Some ''Enter a valid script name.''
         else if \<exists>c \<in> set trimmedValue. c = bslash \<or> c = CHR ''/''
           then Some ''Use only a file name, not a path.''
         else if \<exists>c \<in> set trimmedValue. isInvalidFilenameChar c
           then Some ''Name contains invalid filename characters.''
         else if last trimmedValue = CHR ''.'' \<or> last trimmedValue = CHR '' ''
           then Some ''Name cannot end with a period or space.''
         else (let expectedExtension = normalizeExtension ext
               in if toLowerCase trimmedValue = expectedExtension
                    then Some (''Enter a file name before '' @ expectedExtension @ ''.'')
                  else if toLowerCase (parseName trimmedValue) \<in> set WINDOWS_RESERVED_BASENAMES
                    then Some ''Name is reserved on Windows.''
                  else (let providedExtension = normalizeExtension (extname trimmedValue)
                        in if providedExtension \<noteq> [] \<and> providedExtension \<noteq> expectedExtension
                             then Some (''Use '' @ expectedExtension @ '' or leave the extension blank.'')
                           else None)))"

section \<open>Session state of an activation\<close>

datatype notification = Information string | Warning string | ErrorMessage string

record customInterpreter =
  command :: string
  interpreterLabel :: "string option"

text \<open>
  The mutable state that \<open>activate\<close> closes over: the registry of custom interpreters and
  the one-shot warning flag, with two logs of what reached the editor: the messages
  shown, in order, and the number of \<open>scriptsTreeProvider.refresh()\<close> calls.
\<close>

record session =
  customInterpreters :: "string \<rightharpoonup> customInterpreter"
  hasShownWorkspaceConfigurationWarning :: bool
  shown :: "notification list"
  refreshes :: nat

definition activated :: session where
  "activated = \<lparr>customInterpreters = Map.empty, hasShownWorkspaceConfigurationWarning = False,
                 shown = [], refreshes = 0\<rparr>"

text \<open>
  The disposable returned by \<open>registerInterpreter\<close> closes over \<open>normalizedExtension\<close> and
  \<open>normalizedCommand\<close>; the handle is that pair. A thrown \<open>Error\<close> is \<open>Inl\<close> of its message.
\<close>

record registrationHandle =
  handleExtension :: string
  handleCommand :: string

definition registerInterpreter ::
  "session \<Rightarrow> string \<Rightarrow> string \<Rightarrow> string option \<Rightarrow> (string + registrationHandle) \<times> session" where
  "registerInterpreter s ext cmd lbl =
     (let normalizedExtension = normalizeExtension ext
      in if normalizedExtension = [] then (Inl ''Extension must be provided.'', s)
         else (let normalizedCommand = trim cmd
               in if normalizedCommand = [] then (Inl ''Interpreter command must be provided.'', s)
                  else if BUILTIN_BY_EXTENSION normalizedExtension \<noteq> None
                    then (Inl ([dquote] @ normalizedExtension @ [dquote]
                                @ '' is already handled by a built-in QuickIt interpreter.''), s)
                  else (Inr \<lparr>handleExtension = normalizedExtension, handleCommand = normalizedCommand\<rparr>,
                        s\<lparr>customInterpreters :=
                             (customInterpreters s)(normalizedExtension \<mapsto>
                                \<lparr>command = normalizedCommand, interpreterLabel = lbl\<rparr>),
                           refreshes := Suc (refreshes s)\<rparr>)))"

text \<open>The callback of the disposable.\<close>

definition disposeRegistration :: "session \<Rightarrow> registrationHandle \<Rightarrow> session" where
  "disposeRegistration s h =
     (case customInterpreters s (handleExtension h) of
        None \<Rightarrow> s
      | Some currentValue \<Rightarrow>
          if command currentValue \<noteq> handleCommand h then s
          else s\<lparr>customInterpreters := (customInterpreters s)(handleExtension h := None),
                 refreshes := Suc (refreshes s)\<rparr>)"

section \<open>Settings\<close>

text \<open>
  The result of \<open>WorkspaceConfiguration.inspect\<close> for one key: the value of the key in
  each scope, \<open>undefined\<close> (here \<open>None\<close>) where the scope does not set it.
\<close>

record inspected =
  defaultValue :: "string option"
  globalValue :: "string option"
  workspaceValue :: "string option"
  workspaceFolderValue :: "string option"

text \<open>
  \<open>vscode.workspace.getConfiguration('quickIt')\<close> at the moment of a read, as the two
  methods the extension calls on it.
\<close>

record workspaceConfiguration =
  inspect :: "string \<Rightarrow> inspected option"
  get :: "string \<Rightarrow> string option"

definition normalizeOptionalString :: "string option \<Rightarrow> string option" where
  "normalizeOptionalString v =
     (case v of None \<Rightarrow> None
      | Some s \<Rightarrow> (let trimmed = trim s in if trimmed = [] then None else Some trimmed))"

text \<open>The operator \<open>??\<close>: the right operand is taken when the left one is \<open>undefined\<close>.\<close>

definition orElse :: "'a option \<Rightarrow> 'a option \<Rightarrow> 'a option" where
  "orElse a b = (case a of None \<Rightarrow> b | Some x \<Rightarrow> Some x)"

definition getQuickItConfigurationValue ::
  "workspaceConfiguration \<Rightarrow> string \<Rightarrow> string option \<times> bool" where
  "getQuickItConfigurationValue configuration settingPath =
     (case inspect configuration settingPath of
        None \<Rightarrow> (normalizeOptionalString (get configuration settingPath), False)
      | Some i \<Rightarrow>
          (normalizeOptionalString
             (orElse (globalValue i) (orElse (defaultValue i) (get configuration settingPath))),
           workspaceValue i \<noteq> None \<or> workspaceFolderValue i \<noteq> None))"

definition workspaceOverrideWarning :: string where
  "workspaceOverrideWarning =
     ''QuickIt ignores workspace-level quickIt settings for security. Configure QuickIt in User settings instead.''"

definition getQuickItSettingValue ::
  "workspaceConfiguration \<Rightarrow> session \<Rightarrow> string \<Rightarrow> string option \<times> session" where
  "getQuickItSettingValue configuration s settingPath =
     (let (v, hasWorkspaceOverride) = getQuickItConfigurationValue configuration settingPath
      in if hasWorkspaceOverride \<and> \<not> hasShownWorkspaceConfigurationWarning s
         then (v, s\<lparr>hasShownWorkspaceConfigurationWarning := True,
                     shown := shown s @ [Warning workspaceOverrideWarning]\<rparr>)
         else (v, s))"

text \<open>
  The editor's configuration service, as its API documents it: \<open>inspect\<close> reports the
  scopes of a key, and \<open>get\<close> returns the effective value, in which a workspace-folder
  value overrides a workspace value, that a user-level value, and that the default.
\<close>

definition effectiveValue :: "inspected \<Rightarrow> string option" where
  "effectiveValue i =
     orElse (workspaceFolderValue i) (orElse (workspaceValue i) (orElse (globalValue i) (defaultValue i)))"

definition hostConfiguration :: "(string \<Rightarrow> inspected) \<Rightarrow> workspaceConfiguration" where
  "hostConfiguration scopes =
     \<lparr>inspect = (\<lambda>k. Some (scopes k)), get = (\<lambda>k. effectiveValue (scopes k))\<rparr>"

text \<open>
  The keys the extension reads, \<open>scriptDirectory\<close> and the five \<open>interpreters\<close> keys,
  are string settings that the extension registers with the editor. For a registered
  setting the inspection always reports a default: the one declared with the setting,
  or the empty string when none is declared. The declaration is not part of the
  source file, so the defaults are an argument here, next to the values of the
  user-level, the workspace and the workspace-folder scope.
\<close>

definition registeredConfiguration ::
  "(string \<Rightarrow> string) \<Rightarrow> (string \<Rightarrow> string option) \<Rightarrow> (string \<Rightarrow> string option)
     \<Rightarrow> (string \<Rightarrow> string option) \<Rightarrow> workspaceConfiguration" where
  "registeredConfiguration builtInDefault userLevel workspaceLevel folderLevel =
     hostConfiguration
       (\<lambda>k. \<lparr>defaultValue = Some (builtInDefault k), globalValue = userLevel k,
             workspaceValue = workspaceLevel k, workspaceFolderValue = folderLevel k\<rparr>)"

text \<open>
  A sequence of reads in one activation: each read names its key and comes with the
  configuration of its moment.
\<close>

fun readSettings :: "session \<Rightarrow> (workspaceConfiguration \<times> string) list \<Rightarrow> session" where
  "readSettings s [] = s"
| "readSettings s ((configuration, settingPath) # rs) =
     readSettings (snd (getQuickItSettingValue configuration s settingPath)) rs"

section \<open>Interpreter resolver\<close>

text \<open>
  The loop over the default candidates, with the candidates it has handed to
  \<open>isCommandAvailable\<close>, in order.
\<close>

fun probeCandidates :: "environment \<Rightarrow> string list \<Rightarrow> string option \<times> string list" where
  "probeCandidates env [] = (None, [])"
| "probeCandidates env (candidate # rest) =
     (if isCommandAvailable env candidate then (Some candidate, [candidate])
      else (let (found, probed) = probeCandidates env rest in (found, candidate # probed)))"

text \<open>
  \<open>resolveInterpreterCommand\<close> returns the interpreter, the candidates probed and the
  session after the settings read. The two \<open>if\<close> tests are truthiness tests: a settings
  key or a configured value that is the empty string counts like an absent one.
\<close>

definition resolveInterpreterCommand ::
  "workspaceConfiguration \<Rightarrow> environment \<Rightarrow> session \<Rightarrow> scriptDescriptor
     \<Rightarrow> string option \<times> string list \<times> session" where
  "resolveInterpreterCommand configuration env s descriptor =
     (let (configuredValue, s') =
            (case interpreterSetting descriptor of
               None \<Rightarrow> (None, s)
             | Some settingPath \<Rightarrow>
                 if settingPath = [] then (None, s)
                 else getQuickItSettingValue configuration s settingPath)
      in if configuredValue \<noteq> None \<and> configuredValue \<noteq> Some []
         then (configuredValue, [], s')
         else (let (found, probed) = probeCandidates env (getDefaultInterpreters descriptor)
               in (found, probed, s')))"

section \<open>Run supervisor\<close>

text \<open>
  The task definition of an event is read as \<open>{ type?: unknown; runId?: unknown } | undefined\<close>:
  a field holds any JavaScript value.
\<close>

datatype jsValue = JsUndefined | JsString string | JsNumber int | JsBoolean bool

record taskDefinition =
  definitionType :: jsValue
  definitionRunId :: jsValue

text \<open>
  What the editor can deliver to the promise built by \<open>executeQuickItTask\<close>: the two task
  events, with the definition of the task that ended, and the outcome of the launch
  request \<open>vscode.tasks.executeTask\<close>.
\<close>

datatype hostEvent =
    DidEndTaskProcess "taskDefinition option" "int option"
  | DidEndTask "taskDefinition option"
  | ExecuteTaskFulfilled
  | ExecuteTaskRejected string

datatype settlement = Resolved "int option" | Rejected string

text \<open>
  The state of one \<open>executeQuickItTask\<close> call: the flag \<open>settled\<close>, the state of the promise
  (\<open>None\<close> while pending; a promise keeps its first settlement), and how often each of the
  two subscriptions has been disposed.
\<close>

record supervisor =
  settled :: bool
  promise :: "settlement option"
  endTaskDisposals :: nat
  endTaskProcessDisposals :: nat

definition pending :: supervisor where
  "pending = \<lparr>settled = False, promise = None, endTaskDisposals = 0, endTaskProcessDisposals = 0\<rparr>"

definition settle :: "supervisor \<Rightarrow> settlement \<Rightarrow> supervisor" where
  "settle sv outcome =
     (if settled sv then sv
      else sv\<lparr>settled := True,
              endTaskDisposals := Suc (endTaskDisposals sv),
              endTaskProcessDisposals := Suc (endTaskProcessDisposals sv),
              promise := orElse (promise sv) (Some outcome)\<rparr>)"

text \<open>
  The filter of both listeners: the event is dropped when
  \<open>definition?.type !== 'quick-it' || definition.runId !== runId\<close>.
\<close>

definition isOtherTask :: "string \<Rightarrow> taskDefinition option \<Rightarrow> bool" where
  "isOtherTask runId definition =
     (case definition of
        None \<Rightarrow> True
      | Some d \<Rightarrow> definitionType d \<noteq> JsString ''quick-it'' \<or> definitionRunId d \<noteq> JsString runId)"

fun deliver :: "string \<Rightarrow> supervisor \<Rightarrow> hostEvent \<Rightarrow> supervisor" where
  "deliver runId sv (DidEndTaskProcess definition exitCode) =
     (if isOtherTask runId definition then sv else settle sv (Resolved exitCode))"
| "deliver runId sv (DidEndTask definition) =
     (if isOtherTask runId definition then sv else settle sv (Resolved None))"
| "deliver runId sv ExecuteTaskFulfilled = sv"
| "deliver runId sv (ExecuteTaskRejected error) = settle sv (Rejected error)"

text \<open>
  \<open>executeQuickItTask\<close> over the events the editor delivers, in their order. Every event
  is handed to its listener, also after the subscriptions have been disposed, so the
  flag \<open>settled\<close> alone has to keep the later ones out.
\<close>

definition executeQuickItTask :: "string \<Rightarrow> hostEvent list \<Rightarrow> supervisor" where
  "executeQuickItTask runId events = foldl (deliver runId) pending events"

section \<open>The run command\<close>

text \<open>A number in a template literal: the decimal digits, with a minus sign when negative.\<close>

fun showNat :: "nat \<Rightarrow> string" where
  "showNat n = (if n < 10 then [''0123456789'' ! n] else showNat (n div 10) @ [''0123456789'' ! (n mod 10)])"

declare showNat.simps [simp del]

definition showInt :: "int \<Rightarrow> string" where
  "showInt i = (if i < 0 then ''-'' @ showNat (nat (- i)) else showNat (nat i))"

text \<open>
  The tree item handed to the command: \<open>itemFsPath\<close> is \<open>item.uri.fsPath\<close> and
  \<open>itemBaseName\<close> is \<open>path.basename(item.uri.fsPath)\<close>.
\<close>

record scriptItem =
  itemFsPath :: string
  itemBaseName :: string
  itemDescriptor :: scriptDescriptor

definition notifyQuickItError :: "string \<Rightarrow> string \<Rightarrow> notification" where
  "notifyQuickItError prefix message = ErrorMessage (prefix @ '': '' @ message)"

text \<open>
  What \<open>runScriptCommand\<close> shows once \<open>await executeQuickItTask(task, runId)\<close> has
  settled: the lines after the \<open>await\<close>, and the \<open>catch\<close> block for a rejection.
\<close>

definition reportSettlement :: "string \<Rightarrow> settlement \<Rightarrow> notification" where
  "reportSettlement scriptName outcome =
     (case outcome of
        Resolved exitCode \<Rightarrow>
          (case exitCode of
             None \<Rightarrow> Information (''QuickIt: Finished '' @ [dquote] @ scriptName @ [dquote] @ ''.'')
           | Some n \<Rightarrow>
               if n = 0 then Information (''QuickIt: Finished '' @ [dquote] @ scriptName @ [dquote] @ ''.'')
               else Warning (''QuickIt: Finished '' @ [dquote] @ scriptName @ [dquote]
                             @ '' (exit code '' @ showInt n @ '').''))
      | Rejected message \<Rightarrow> notifyQuickItError ''QuickIt failed to run the selected script'' message)"

text \<open>
  \<open>runScriptCommand\<close>: the command line handed to \<open>vscode.tasks.executeTask\<close> (\<open>None\<close> when
  no task is launched) and the session, whose log \<open>shown\<close> has the messages of the run.
  \<open>runId\<close> is the value of \<open>createRunId()\<close> and \<open>events\<close> is what the editor delivers
  while the command waits; while the promise is pending nothing more is shown. The test
  \<open>!interpreterCommand\<close> holds for \<open>undefined\<close> and for the empty string.
\<close>

definition runScriptCommand ::
  "workspaceConfiguration \<Rightarrow> environment \<Rightarrow> session \<Rightarrow> string \<Rightarrow> hostEvent list
     \<Rightarrow> scriptItem option \<Rightarrow> string option \<times> session" where
  "runScriptCommand configuration env s runId events item =
     (case item of
        None \<Rightarrow> (None, s\<lparr>shown := shown s @ [ErrorMessage ''No QuickIt script selected.'']\<rparr>)
      | Some it \<Rightarrow>
          (let (interpreterCommand, probed, s1) =
                 resolveInterpreterCommand configuration env s (itemDescriptor it)
           in case interpreterCommand of
                None \<Rightarrow>
                  (None, s1\<lparr>shown := shown s1 @
                     [ErrorMessage (''No interpreter found for '' @ label (itemDescriptor it)
                                    @ ''. Configure one in QuickIt settings.'')]\<rparr>)
              | Some ic \<Rightarrow>
                  if ic = []
                  then (None, s1\<lparr>shown := shown s1 @
                          [ErrorMessage (''No interpreter found for '' @ label (itemDescriptor it)
                                         @ ''. Configure one in QuickIt settings.'')]\<rparr>)
                  else if \<not> isCommandAvailable env ic
                  then (None, s1\<lparr>shown := shown s1 @
                          [ErrorMessage (''Interpreter '' @ [dquote] @ ic @ [dquote]
                                         @ '' was not found on PATH.'')]\<rparr>)
                  else (let scriptName = itemBaseName it;
                            commandLine = buildRunCommand (itemDescriptor it) (processPlatform env) ic
                                            (itemFsPath it);
                            executing = Information (''QuickIt: Executing '' @ [dquote] @ scriptName
                                                     @ [dquote] @ ''...'')
                        in (Some commandLine,
                            s1\<lparr>shown := shown s1 @ [executing] @
                               (case promise (executeQuickItTask runId events) of
                                  None \<Rightarrow> []
                                | Some outcome \<Rightarrow> [reportSettlement scriptName outcome])\<rparr>))))"

section \<open>Scripts view\<close>

text \<open>
  \<open>ScriptsTreeProvider\<close>, with the messages its \<open>getChildren\<close> has shown. The body of the
  \<open>try\<close> block of \<open>getChildren\<close> calls the file system; a call for the root comes with what
  that body does: it throws an error with a message, or it returns the items.
\<close>

record scriptsTreeProvider =
  hasShownReadError :: bool
  readErrorsShown :: "string list"

definition newProvider :: scriptsTreeProvider where
  "newProvider = \<lparr>hasShownReadError = False, readErrorsShown = []\<rparr>"

datatype loadOutcome = LoadThrows string | LoadReturns "string list"

datatype childrenCall = ChildrenOfElement | ChildrenOfRoot loadOutcome

fun getChildren :: "scriptsTreeProvider \<Rightarrow> childrenCall \<Rightarrow> string list \<times> scriptsTreeProvider" where
  "getChildren p ChildrenOfElement = ([], p)"
| "getChildren p (ChildrenOfRoot (LoadReturns scriptItems)) =
     (scriptItems, p\<lparr>hasShownReadError := False\<rparr>)"
| "getChildren p (ChildrenOfRoot (LoadThrows message)) =
     ([], if \<not> hasShownReadError p
          then p\<lparr>hasShownReadError := True,
                 readErrorsShown := readErrorsShown p @ [''QuickIt failed to load scripts: '' @ message]\<rparr>
          else p)"

definition getChildrenCalls :: "scriptsTreeProvider \<Rightarrow> childrenCall list \<Rightarrow> scriptsTreeProvider" where
  "getChildrenCalls p calls = foldl (\<lambda>q c. snd (getChildren q c)) p calls"

section \<open>The rules of the specification, in its words\<close>

text \<open>
  The quoting rule as the specification words it: the argument between two quote
  characters, with every quote character inside it replaced by its escape.
\<close>

definition spec_quoteForCommandArgument :: "platform \<Rightarrow> string \<Rightarrow> string" where
  "spec_quoteForCommandArgument p v =
     (case p of
        Win32 \<Rightarrow> [dquote] @ concat (map (\<lambda>c. if c = dquote then [dquote, dquote] else [c]) v) @ [dquote]
      | Posix \<Rightarrow> [squote] @ concat (map (\<lambda>c. if c = squote then [squote, bslash, squote, squote] else [c]) v)
                 @ [squote])"

section \<open>Sample sessions\<close>

text \<open>
  The session after \<open>registerInterpreter('rb', 'ruby')\<close> on a fresh activation, and the
  session after a following \<open>registerInterpreter('.RB', 'jruby')\<close>.
\<close>

definition rubySession :: session where
  "rubySession = activated\<lparr>customInterpreters := [''.rb'' \<mapsto> \<lparr>command = ''ruby'', interpreterLabel = None\<rparr>],
                            refreshes := 1\<rparr>"

definition jrubySession :: session where
  "jrubySession = activated\<lparr>customInterpreters := [''.rb'' \<mapsto> \<lparr>command = ''jruby'', interpreterLabel = None\<rparr>],
                             refreshes := 2\<rparr>"

section \<open>Sequences of calls on the scripts view\<close>

text \<open>
  A call whose load succeeds, and the messages of the calls whose load throws, for
  statements about a sequence of \<open>getChildren\<close> calls.
\<close>

fun isLoadReturns :: "childrenCall \<Rightarrow> bool" where
  "isLoadReturns (ChildrenOfRoot (LoadReturns scriptItems)) = True"
| "isLoadReturns c = False"

fun failedLoads :: "childrenCall list \<Rightarrow> string list" where
  "failedLoads [] = []"
| "failedLoads (ChildrenOfRoot (LoadThrows message) # cs) = message # failedLoads cs"
| "failedLoads (c # cs) = failedLoads cs"

section \<open>Signals of a run\<close>

text \<open>
  The definition that \<open>runScriptCommand\<close> gives the task of a run, the events that can
  settle \<open>executeQuickItTask\<close> for a run identifier (the two task events with exactly
  that definition, and the rejection of the launch request), and the settlement each
  event asks for.
\<close>

definition quickItDefinition :: "string \<Rightarrow> taskDefinition" where
  "quickItDefinition runId = \<lparr>definitionType = JsString ''quick-it'', definitionRunId = JsString runId\<rparr>"

fun settlementOf :: "hostEvent \<Rightarrow> settlement option" where
  "settlementOf (DidEndTaskProcess definition exitCode) = Some (Resolved exitCode)"
| "settlementOf (DidEndTask definition) = Some (Resolved None)"
| "settlementOf ExecuteTaskFulfilled = None"
| "settlementOf (ExecuteTaskRejected error) = Some (Rejected error)"

fun settlesRun :: "string \<Rightarrow> hostEvent \<Rightarrow> bool" where
  "settlesRun runId (DidEndTaskProcess definition exitCode) = (definition = Some (quickItDefinition runId))"
| "settlesRun runId (DidEndTask definition) = (definition = Some (quickItDefinition runId))"
| "settlesRun runId ExecuteTaskFulfilled = False"
| "settlesRun runId (ExecuteTaskRejected error) = True"

text \<open>
  The specification's reading of a signal for a run: an event whose task definition
  carries the run identifier, whatever its type. \<open>spec_settlement\<close> is the outcome the
  specification promises: the settlement of the first such event.
\<close>

fun carriesRunId :: "string \<Rightarrow> hostEvent \<Rightarrow> bool" where
  "carriesRunId runId (DidEndTaskProcess definition exitCode) =
     (map_option definitionRunId definition = Some (JsString runId))"
| "carriesRunId runId (DidEndTask definition) =
     (map_option definitionRunId definition = Some (JsString runId))"
| "carriesRunId runId ExecuteTaskFulfilled = False"
| "carriesRunId runId (ExecuteTaskRejected error) = True"

definition spec_settlement :: "string \<Rightarrow> hostEvent list \<Rightarrow> settlement option" where
  "spec_settlement runId events =
     (case find (carriesRunId runId) events of None \<Rightarrow> None | Some e \<Rightarrow> settlementOf e)"

text \<open>The end of a task of another type whose definition has a \<open>runId\<close> field \<open>r1\<close>.\<close>

definition foreignEnd :: hostEvent where
  "foreignEnd = DidEndTask (Some \<lparr>definitionType = JsString ''shell'', definitionRunId = JsString ''r1''\<rparr>)"

section \<open>Reading a decimal numeral\<close>

text \<open>The number that a sequence of decimal digits denotes.\<close>

definition digitsValue :: "string \<Rightarrow> nat" where
  "digitsValue ds = foldl (\<lambda>a c. 10 * a + (of_char c - 48)) 0 ds"

section \<open>A sample run\<close>

text \<open>
  The item of a Python script, a configuration whose only user-level value is
  \<open>' python3 '\<close> for \<open>interpreters.python\<close> over empty defaults, and a POSIX
  environment whose PATH holds \<open>python3\<close> and \<open>powershell\<close>.
\<close>

definition sampleItem :: scriptItem where
  "sampleItem = \<lparr>itemFsPath = ''/home/u/scripts/job.py'', itemBaseName = ''job.py'',
                  itemDescriptor = BUILTIN_SCRIPT_DESCRIPTORS ! 3\<rparr>"

definition userSettings :: workspaceConfiguration where
  "userSettings = hostConfiguration
     (\<lambda>k. \<lparr>defaultValue = Some [], globalValue = (if k = ''interpreters.python'' then Some '' python3 '' else None),
           workspaceValue = None, workspaceFolderValue = None\<rparr>)"

definition sampleEnvironment :: environment where
  "sampleEnvironment = \<lparr>processPlatform = Posix, statSucceeds = (\<lambda>p. False),
                         pathSearchSucceeds = (\<lambda>n. n = ''python3'' \<or> n = ''powershell'')\<rparr>"

section \<open>Sample configurations\<close>

text \<open>The sample configuration with a workspace value added to every key.\<close>

definition overriddenSettings :: workspaceConfiguration where
  "overriddenSettings = hostConfiguration
     (\<lambda>k. \<lparr>defaultValue = Some [], globalValue = (if k = ''interpreters.python'' then Some '' python3 '' else None),
           workspaceValue = Some ''./evil.sh'', workspaceFolderValue = None\<rparr>)"

section \<open>A sample run without an interpreter\<close>

text \<open>An environment whose PATH search finds nothing, and the item of a PowerShell script.\<close>

definition barePath :: environment where
  "barePath = \<lparr>processPlatform = Posix, statSucceeds = (\<lambda>p. False), pathSearchSucceeds = (\<lambda>n. False)\<rparr>"

definition powershellItem :: scriptItem where
  "powershellItem = \<lparr>itemFsPath = ''/home/u/scripts/job.ps1'', itemBaseName = ''job.ps1'',
                      itemDescriptor = BUILTIN_SCRIPT_DESCRIPTORS ! 0\<rparr>"

section \<open>String lemmas\<close>

lemmas string_eval = trim_def isWhiteSpace_def toLowerCase_def lowerChar_def char_of_def
  bit_Suc_0_iff dquote_def squote_def bslash_def

lemmas token_eval = isCommandAvailable_def extractCommandToken_def Let_def trim_def
  isWhiteSpace_def startsWith_def dquote_def squote_def searchWhiteSpace_def isAbsolute_def

lemma firstIndex_takeWhile:
  "firstIndex P xs i = (if \<exists>x \<in> set xs. P x then int (i + length (takeWhile (\<lambda>x. \<not> P x) xs)) else - 1)"
  by (induction xs arbitrary: i) auto

lemma take_length_takeWhile: "take (length (takeWhile P xs)) xs = takeWhile P xs"
  by (induction xs) auto

lemma replaceAll_concat: "replaceAll c r v = concat (map (\<lambda>x. if x = c then r else [x]) v)"
  by (induction v) simp_all

lemma in_dropWhile: "x \<in> set xs \<Longrightarrow> \<not> P x \<Longrightarrow> x \<in> set (dropWhile P xs)"
  by (induction xs) auto

lemma set_trim: "set (trim v) \<subseteq> set v"
  by (auto simp add: trim_def dest!: set_dropWhileD)

lemma in_trim: "c \<in> set v \<Longrightarrow> \<not> isWhiteSpace c \<Longrightarrow> c \<in> set (trim v)"
  by (simp add: trim_def in_dropWhile)

lemma last_trim_not_white: "trim v \<noteq> [] \<Longrightarrow> \<not> isWhiteSpace (last (trim v))"
proof -
  assume ne: "trim v \<noteq> []"
  let ?w = "dropWhile isWhiteSpace (rev (dropWhile isWhiteSpace v))"
  from ne have w: "?w \<noteq> []" by (simp add: trim_def)
  then have "\<not> isWhiteSpace (hd ?w)" by (rule hd_dropWhile)
  moreover have "last (trim v) = hd ?w" using w by (simp add: trim_def last_rev)
  ultimately show ?thesis by simp
qed

lemma last_dropWhile: "dropWhile P xs \<noteq> [] \<Longrightarrow> last (dropWhile P xs) = last xs"
  by (induction xs) (auto split: if_splits)

lemma trim_keeps_last:
  assumes "v \<noteq> []" and "\<not> isWhiteSpace (last v)"
  shows "trim v \<noteq> [] \<and> last (trim v) = last v"
proof -
  let ?d = "dropWhile isWhiteSpace v"
  have "last v \<in> set ?d" using assms by (simp add: in_dropWhile)
  then have d: "?d \<noteq> []" by (metis empty_iff empty_set)
  have ld: "last ?d = last v" using d by (simp add: last_dropWhile) 
  have "hd (rev ?d) = last v" using d ld by (simp add: hd_rev)
  then have "dropWhile isWhiteSpace (rev ?d) = rev ?d"
    using assms(2) d by (cases "rev ?d") auto
  then have "trim v = ?d" by (simp add: trim_def)
  with d ld show ?thesis by simp
qed

lemma trim_eq_Nil: "trim s = [] \<longleftrightarrow> (\<forall>c \<in> set s. isWhiteSpace c)"
proof
  assume "trim s = []"
  then show "\<forall>c \<in> set s. isWhiteSpace c"
    using in_trim [of _ s] by auto
next
  assume "\<forall>c \<in> set s. isWhiteSpace c"
  then show "trim s = []"
    using set_trim [of s] last_trim_not_white [of s] last_in_set [of "trim s"] by blast
qed

section \<open>Command builder: the quoting rule\<close>

text \<open>
  Claim C3. For every platform and every string, \<open>quoteForCommandArgument\<close> returns
  what the quoting rule of the specification asks for: on win32 the string between
  double quotes with every double quote inside it doubled, elsewhere the string between
  single quotes with every single quote inside it replaced by the four characters
  quote, backslash, quote, quote. The descriptor registered for \<open>.ps1\<close> builds the
  interpreter, then \<open>-NoProfile -ExecutionPolicy Bypass -File\<close>, then the quoted path.
\<close>

theorem quoteForCommandArgument_rule:
  "quoteForCommandArgument p v = spec_quoteForCommandArgument p v
   \<and> (\<exists>d. BUILTIN_BY_EXTENSION ''.ps1'' = Some d
        \<and> buildRunCommand d p interpreter scriptPath =
            interpreter @ '' -NoProfile -ExecutionPolicy Bypass -File ''
              @ quoteForCommandArgument p scriptPath)"
proof
  show "quoteForCommandArgument p v = spec_quoteForCommandArgument p v"
    by (cases p)
      (simp_all add: quoteForCommandArgument_def spec_quoteForCommandArgument_def replaceAll_concat)
next
  show "\<exists>d. BUILTIN_BY_EXTENSION ''.ps1'' = Some d
        \<and> buildRunCommand d p interpreter scriptPath =
            interpreter @ '' -NoProfile -ExecutionPolicy Bypass -File ''
              @ quoteForCommandArgument p scriptPath"
    by (simp add: BUILTIN_BY_EXTENSION_def BUILTIN_SCRIPT_DESCRIPTORS_def powershellRunCommand_def)
qed

text \<open>The rule at a path with a single quote, and at one with a double quote.\<close>

theorem quoteForCommandArgument_rule_witness:
  "quoteForCommandArgument Posix (''it'' @ [squote] @ ''s'')
     = [squote] @ ''it'' @ [squote, bslash, squote, squote] @ ''s'' @ [squote]
   \<and> quoteForCommandArgument Win32 (''a'' @ [dquote] @ ''b'')
     = [dquote] @ ''a'' @ [dquote, dquote] @ ''b'' @ [dquote]"
  using quoteForCommandArgument_rule [of Posix "''it'' @ [squote] @ ''s''"]
        quoteForCommandArgument_rule [of Win32 "''a'' @ [dquote] @ ''b''"]
  by (simp add: spec_quoteForCommandArgument_def squote_def dquote_def bslash_def)

section \<open>Interpreter availability: the command token\<close>

lemma indexOf_after_head:
  "indexOf (q # rest) q (Suc 0) =
     (if q \<in> set rest then 1 + int (length (takeWhile (\<lambda>x. x \<noteq> q) rest)) else - 1)"
  by (simp add: indexOf_def firstIndex_takeWhile)

lemma fallback_token:
  "(if searchWhiteSpace t = - 1 then t else slice t 0 (nat (searchWhiteSpace t)))
   = takeWhile (\<lambda>c. \<not> isWhiteSpace c) t"
proof (cases "\<exists>x \<in> set t. isWhiteSpace x")
  case True
  then show ?thesis
    by (simp add: searchWhiteSpace_def firstIndex_takeWhile slice_def take_length_takeWhile)
next
  case False
  then have e: "takeWhile (\<lambda>c. \<not> isWhiteSpace c) t = t"
    by simp
  have s: "searchWhiteSpace t = - 1"
    using False by (simp add: searchWhiteSpace_def firstIndex_takeWhile)
  show ?thesis
    unfolding s e by simp
qed

lemma quote_not_white: "q = dquote \<or> q = squote \<Longrightarrow> \<not> isWhiteSpace q"
  by (auto simp add: dquote_def squote_def isWhiteSpace_def)

lemma quote_not_absolute: "q = dquote \<or> q = squote \<Longrightarrow> \<not> isAbsolute p (q # xs)"
  by (auto simp add: isAbsolute_def dquote_def squote_def isPathSeparator_def bslash_def
        isWindowsDeviceRoot_def)

lemma extractCommandToken_quoted:
  assumes t: "trim cmd = q # rest" and q: "q = dquote \<or> q = squote"
  shows "extractCommandToken cmd =
           (if q \<in> set rest \<and> hd rest \<noteq> q then takeWhile (\<lambda>c. c \<noteq> q) rest
            else q # takeWhile (\<lambda>c. \<not> isWhiteSpace c) rest)"
proof -
  have sw: "startsWith (q # rest) [dquote] \<or> startsWith (q # rest) [squote]"
    using q by (auto simp add: startsWith_def)
  have closing: "indexOf (q # rest) q (Suc 0) > 1 \<longleftrightarrow> q \<in> set rest \<and> hd rest \<noteq> q"
    by (cases rest) (auto simp add: indexOf_after_head)
  have unfolded: "extractCommandToken cmd =
      (if indexOf (q # rest) q (Suc 0) > 1
       then slice (q # rest) (Suc 0) (nat (indexOf (q # rest) q (Suc 0)))
       else (if searchWhiteSpace (q # rest) = - 1 then q # rest
             else slice (q # rest) 0 (nat (searchWhiteSpace (q # rest)))))"
    using sw by (simp add: extractCommandToken_def Let_def t)
  have fb: "(if searchWhiteSpace (q # rest) = - 1 then q # rest
             else slice (q # rest) 0 (nat (searchWhiteSpace (q # rest))))
            = q # takeWhile (\<lambda>c. \<not> isWhiteSpace c) rest"
    unfolding fallback_token using quote_not_white [OF q] by simp
  show ?thesis
  proof (cases "q \<in> set rest \<and> hd rest \<noteq> q")
    case True
    then have "slice (q # rest) (Suc 0) (nat (indexOf (q # rest) q (Suc 0)))
                 = takeWhile (\<lambda>c. c \<noteq> q) rest"
      by (simp add: indexOf_after_head slice_def take_length_takeWhile nat_add_distrib)
    with True closing show ?thesis
      unfolding unfolded by simp
  next
    case False
    with closing show ?thesis
      unfolding unfolded fb by auto
  qed
qed

text \<open>
  Claim C10. Let the trimmed command start with a quote character \<open>q\<close>, single or
  double, and let \<open>rest\<close> be what follows it. The quote is stripped, and the token is
  the text up to the next \<open>q\<close>, exactly when \<open>q\<close> occurs in \<open>rest\<close> but not as its first
  character, that is when the first closing quote stands at index 2 or later. When
  the quote is unmatched, or \<open>rest\<close> begins with \<open>q\<close> (an empty quoted token), the token
  is the trimmed command up to its first white space: it keeps the leading quote, and
  \<open>isCommandAvailable\<close> answers with the PATH search for that literal token.
\<close>

theorem extractCommandToken_keeps_unclosed_quote:
  assumes "trim cmd = q # rest" and "q = dquote \<or> q = squote"
  shows "extractCommandToken cmd =
           (if q \<in> set rest \<and> hd rest \<noteq> q then takeWhile (\<lambda>c. c \<noteq> q) rest
            else q # takeWhile (\<lambda>c. \<not> isWhiteSpace c) rest)
         \<and> (q \<notin> set rest \<or> hd rest = q \<longrightarrow>
              isCommandAvailable env cmd
                = pathSearchSucceeds env (q # takeWhile (\<lambda>c. \<not> isWhiteSpace c) rest))"
proof -
  note tok = extractCommandToken_quoted [OF assms]
  have "isCommandAvailable env cmd
          = pathSearchSucceeds env (q # takeWhile (\<lambda>c. \<not> isWhiteSpace c) rest)"
    if "q \<notin> set rest \<or> hd rest = q"
  proof -
    from that tok have "extractCommandToken cmd = q # takeWhile (\<lambda>c. \<not> isWhiteSpace c) rest"
      by auto
    then show ?thesis
      using quote_not_absolute [OF assms(2)] by (simp add: isCommandAvailable_def Let_def)
  qed
  then show ?thesis
    using tok by blast
qed

text \<open>
  An empty quoted token, an unmatched single quote after leading blanks, a properly
  quoted program, and the probe of the first: the PATH search is asked for the token
  with its two quotes, not for \<open>foo\<close>.
\<close>

theorem extractCommandToken_keeps_unclosed_quote_witness:
  "extractCommandToken ([dquote, dquote] @ ''foo -x'') = [dquote, dquote] @ ''foo''
   \<and> extractCommandToken (''  '' @ [squote] @ ''my tool'') = [squote] @ ''my''
   \<and> extractCommandToken ([dquote] @ ''my tool'' @ [dquote] @ '' -x'') = ''my tool''
   \<and> isCommandAvailable
        \<lparr>processPlatform = Win32, statSucceeds = (\<lambda>p. True), pathSearchSucceeds = (\<lambda>n. n = ''foo'')\<rparr>
        ([dquote, dquote] @ ''foo -x'') = False"
  using extractCommandToken_keeps_unclosed_quote
          [of "[dquote, dquote] @ ''foo -x''" dquote "[dquote] @ ''foo -x''"
              "\<lparr>processPlatform = Win32, statSucceeds = (\<lambda>p. True),
                pathSearchSucceeds = (\<lambda>n. n = ''foo'')\<rparr>"]
        extractCommandToken_keeps_unclosed_quote
          [of "''  '' @ [squote] @ ''my tool''" squote "''my tool''"]
        extractCommandToken_keeps_unclosed_quote
          [of "[dquote] @ ''my tool'' @ [dquote] @ '' -x''" dquote "''my tool'' @ [dquote] @ '' -x''"]
  by (simp add: trim_def isWhiteSpace_def dquote_def squote_def)

section \<open>Name validation\<close>

lemma extname_split:
  assumes "CHR ''.'' \<in> set t"
  shows "\<exists>b a. t = b @ CHR ''.'' # a \<and> CHR ''.'' \<notin> set a
           \<and> extname t = (if b = [] \<or> t = ''..'' then [] else CHR ''.'' # a)"
proof -
  let ?a = "takeWhile (\<lambda>c. c \<noteq> CHR ''.'') (rev t)"
  let ?d = "dropWhile (\<lambda>c. c \<noteq> CHR ''.'') (rev t)"
  have dne: "?d \<noteq> []" using assms by auto
  then have "hd ?d = CHR ''.''" using hd_dropWhile [of "\<lambda>c. c \<noteq> CHR ''.''" "rev t"] by simp
  with dne obtain b' where d: "?d = CHR ''.'' # b'" by (cases ?d) auto
  have "rev t = ?a @ ?d" by simp
  then have "rev t = ?a @ CHR ''.'' # b'" using d by simp
  then have "rev (rev t) = rev (?a @ CHR ''.'' # b')" by simp
  then have t: "t = rev b' @ CHR ''.'' # rev ?a" by simp
  have na: "CHR ''.'' \<notin> set (rev ?a)" by (auto dest: set_takeWhileD)
  have len: "length t - Suc (length ?a) = length (rev b')"
    by (subst t) simp
  have "drop (length (rev b')) t = CHR ''.'' # rev ?a"
    by (subst t) simp
  then have "extname t = (if rev b' = [] \<or> t = ''..'' then [] else CHR ''.'' # rev ?a)"
    using assms len by (simp add: extname_def Let_def)
  with t na show ?thesis by blast
qed

lemma extname_Nil_or_dot: "extname t = [] \<or> hd (extname t) = CHR ''.''"
proof (cases "CHR ''.'' \<in> set t")
  case True
  from extname_split [OF this] show ?thesis by (auto split: if_splits)
next
  case False
  then show ?thesis by (simp add: extname_def)
qed

lemma toLowerCase_eq_Nil [simp]: "toLowerCase s = [] \<longleftrightarrow> s = []"
  by (simp add: toLowerCase_def)

lemma normalizeExtension_eq_Nil: "normalizeExtension e = [] \<longleftrightarrow> trim e = []"
  by (simp add: normalizeExtension_def Let_def)

lemma normalizeExtension_extname:
  "normalizeExtension (extname t) = [] \<longleftrightarrow> extname t = []"
proof
  assume "normalizeExtension (extname t) = []"
  then have w: "\<forall>c \<in> set (extname t). isWhiteSpace c"
    by (simp add: normalizeExtension_eq_Nil trim_eq_Nil)
  show "extname t = []"
  proof (rule ccontr)
    assume ne: "extname t \<noteq> []"
    with extname_Nil_or_dot [of t] have "hd (extname t) = CHR ''.''" by simp
    with ne w have "isWhiteSpace (CHR ''.'')" using hd_in_set by metis
    then show False by (simp add: isWhiteSpace_def)
  qed
next
  assume "extname t = []"
  then show "normalizeExtension (extname t) = []"
    by (simp add: normalizeExtension_def trim_def)
qed

lemma if_Some_not_None: "((if c then Some x else r) \<noteq> None) = (c \<or> r \<noteq> None)"
  by simp

lemma validateScriptNameInput_conditions:
  "validateScriptNameInput v ext \<noteq> None \<longleftrightarrow>
      trim v = [] \<or> (trim v = ''.'' \<or> trim v = ''..'')
      \<or> (\<exists>c \<in> set (trim v). c = bslash \<or> c = CHR ''/'')
      \<or> (\<exists>c \<in> set (trim v). isInvalidFilenameChar c)
      \<or> (last (trim v) = CHR ''.'' \<or> last (trim v) = CHR '' '')
      \<or> toLowerCase (trim v) = normalizeExtension ext
      \<or> toLowerCase (parseName (trim v)) \<in> set WINDOWS_RESERVED_BASENAMES
      \<or> (normalizeExtension (extname (trim v)) \<noteq> [] \<and> normalizeExtension (extname (trim v)) \<noteq> normalizeExtension ext)"
  unfolding validateScriptNameInput_def Let_def if_Some_not_None by simp


lemma invalid_char_in_trim:
  assumes "c \<in> set v" and "isInvalidFilenameChar c" and "\<not> isWhiteSpace c"
  shows "\<exists>c \<in> set (trim v). isInvalidFilenameChar c"
  using assms in_trim by blast

text \<open>
  Claim C8, as stated, at two names: a name that ends in a space and a name that
  contains the control character LF are both accepted, because the name is trimmed
  before any check.
\<close>

theorem validateScriptNameInput_space_counterexample:
  "validateScriptNameInput ''my-script '' ''.ps1'' = None
   \<and> last ''my-script '' = CHR '' ''
   \<and> validateScriptNameInput (''my-script'' @ [CHR 0x0A]) ''.ps1'' = None
   \<and> (of_char (CHR 0x0A) :: nat) \<le> 0x1F"
  by code_simp

text \<open>
  Claim C8, amended. \<open>validateScriptNameInput\<close> judges the trimmed name. It returns a
  message exactly when the trimmed name is empty, is \<open>.\<close> or \<open>..\<close>, contains \<open>/\<close> or
  \<open>\\<close>, contains one of \<open><>:"|?*\<close> or a character up to \<open>\x1F\<close>, ends in a period,
  is the expected extension in any letter case, has a Windows-reserved basename in any
  letter case, or carries an extension other than the expected one. A trimmed name
  never ends in a space, so that check never fires. For the name as typed this gives:
  the names \<open>\<close>, \<open>.\<close> and \<open>..\<close> are refused; so is every name that contains \<open>/\<close>, \<open>\\<close>,
  one of \<open><>:"|?*\<close>, or a control character that is not white space; so is every name
  that ends in a period. \<open>my-script\<close> and \<open>my-script.ps1\<close> are accepted for \<open>.ps1\<close>.
\<close>

theorem validateScriptNameInput_rejects:
  "(validateScriptNameInput v ext \<noteq> None \<longleftrightarrow>
      trim v = [] \<or> trim v = ''.'' \<or> trim v = ''..''
      \<or> (\<exists>c \<in> set (trim v). c = CHR ''/'' \<or> c = bslash)
      \<or> (\<exists>c \<in> set (trim v). c \<in> set ''<>:|?*'' \<or> c = dquote \<or> (of_char c :: nat) \<le> 31)
      \<or> last (trim v) = CHR ''.''
      \<or> toLowerCase (trim v) = normalizeExtension ext
      \<or> toLowerCase (parseName (trim v)) \<in> set WINDOWS_RESERVED_BASENAMES
      \<or> (extname (trim v) \<noteq> [] \<and> normalizeExtension (extname (trim v)) \<noteq> normalizeExtension ext))
   \<and> (v = [] \<or> v = ''.'' \<or> v = ''..'' \<longrightarrow> validateScriptNameInput v ext \<noteq> None)
   \<and> ((\<exists>c \<in> set v. c = CHR ''/'' \<or> c = bslash) \<longrightarrow> validateScriptNameInput v ext \<noteq> None)
   \<and> ((\<exists>c \<in> set v. c \<in> set ''<>:|?*'' \<or> c = dquote \<or> ((of_char c :: nat) \<le> 31 \<and> \<not> isWhiteSpace c))
        \<longrightarrow> validateScriptNameInput v ext \<noteq> None)
   \<and> (v \<noteq> [] \<and> last v = CHR ''.'' \<longrightarrow> validateScriptNameInput v ext \<noteq> None)
   \<and> validateScriptNameInput ''my-script'' ''.ps1'' = None
   \<and> validateScriptNameInput ''my-script.ps1'' ''.ps1'' = None"
proof -
  note cond = validateScriptNameInput_conditions [of v ext]
  have invalid: "isInvalidFilenameChar c \<longleftrightarrow>
      c \<in> set ''<>:|?*'' \<or> c = dquote \<or> (of_char c :: nat) \<le> 31" for c
    by (auto simp add: isInvalidFilenameChar_def)
  have space: "trim v \<noteq> [] \<Longrightarrow> last (trim v) \<noteq> CHR '' ''"
    using last_trim_not_white [of v] by (auto simp add: isWhiteSpace_def)
  have exact: "validateScriptNameInput v ext \<noteq> None \<longleftrightarrow>
      trim v = [] \<or> trim v = ''.'' \<or> trim v = ''..''
      \<or> (\<exists>c \<in> set (trim v). c = CHR ''/'' \<or> c = bslash)
      \<or> (\<exists>c \<in> set (trim v). c \<in> set ''<>:|?*'' \<or> c = dquote \<or> (of_char c :: nat) \<le> 31)
      \<or> last (trim v) = CHR ''.''
      \<or> toLowerCase (trim v) = normalizeExtension ext
      \<or> toLowerCase (parseName (trim v)) \<in> set WINDOWS_RESERVED_BASENAMES
      \<or> (extname (trim v) \<noteq> [] \<and> normalizeExtension (extname (trim v)) \<noteq> normalizeExtension ext)"
    unfolding cond invalid normalizeExtension_extname using space by blast
  have literal: "v = [] \<or> v = ''.'' \<or> v = ''..'' \<longrightarrow> validateScriptNameInput v ext \<noteq> None"
    unfolding cond by (auto simp add: trim_def isWhiteSpace_def)
  have sep: "(\<exists>c \<in> set v. c = CHR ''/'' \<or> c = bslash) \<longrightarrow> validateScriptNameInput v ext \<noteq> None"
  proof
    assume "\<exists>c \<in> set v. c = CHR ''/'' \<or> c = bslash"
    then obtain c where c: "c \<in> set v" "c = CHR ''/'' \<or> c = bslash" by blast
    then have "\<not> isWhiteSpace c" by (auto simp add: isWhiteSpace_def bslash_def)
    with c have "c \<in> set (trim v)" by (simp add: in_trim)
    with c show "validateScriptNameInput v ext \<noteq> None" unfolding cond by blast
  qed
  have bad: "(\<exists>c \<in> set v. c \<in> set ''<>:|?*'' \<or> c = dquote \<or> ((of_char c :: nat) \<le> 31 \<and> \<not> isWhiteSpace c))
        \<longrightarrow> validateScriptNameInput v ext \<noteq> None"
  proof
    assume "\<exists>c \<in> set v. c \<in> set ''<>:|?*'' \<or> c = dquote \<or> ((of_char c :: nat) \<le> 31 \<and> \<not> isWhiteSpace c)"
    then obtain c where c: "c \<in> set v"
      "c \<in> set ''<>:|?*'' \<or> c = dquote \<or> ((of_char c :: nat) \<le> 31 \<and> \<not> isWhiteSpace c)" by blast
    then have "\<not> isWhiteSpace c" by (auto simp add: isWhiteSpace_def dquote_def)
    moreover from c have "isInvalidFilenameChar c" unfolding invalid by blast
    ultimately have "\<exists>c \<in> set (trim v). isInvalidFilenameChar c"
      using c(1) invalid_char_in_trim by blast
    then show "validateScriptNameInput v ext \<noteq> None" unfolding cond by blast
  qed
  have dot: "v \<noteq> [] \<and> last v = CHR ''.'' \<longrightarrow> validateScriptNameInput v ext \<noteq> None"
  proof
    assume a: "v \<noteq> [] \<and> last v = CHR ''.''"
    then have "\<not> isWhiteSpace (last v)" by (simp add: isWhiteSpace_def)
    with a have "last (trim v) = CHR ''.''" using trim_keeps_last [of v] by simp
    then show "validateScriptNameInput v ext \<noteq> None" unfolding cond by blast
  qed
  have ok1: "validateScriptNameInput ''my-script'' ''.ps1'' = None" by code_simp
  have ok2: "validateScriptNameInput ''my-script.ps1'' ''.ps1'' = None" by code_simp
  from exact literal sep bad dot ok1 ok2 show ?thesis by (intro conjI)
qed

text \<open>
  Refused: a path, a reserved character, a trailing period, a reserved basename in
  capitals between blanks, the bare extension, another extension. Accepted: a valid
  name between blanks.
\<close>

theorem validateScriptNameInput_rejects_witness:
  "validateScriptNameInput ''path/to/script'' ''.ps1'' \<noteq> None
   \<and> validateScriptNameInput ''what?'' ''.ps1'' \<noteq> None
   \<and> validateScriptNameInput ''name.'' ''.ps1'' \<noteq> None
   \<and> validateScriptNameInput '' CON.ps1 '' ''.ps1'' \<noteq> None
   \<and> validateScriptNameInput ''.PS1'' ''ps1'' \<noteq> None
   \<and> validateScriptNameInput ''script.sh'' ''.ps1'' \<noteq> None
   \<and> validateScriptNameInput '' my-script '' ''.ps1'' = None"
proof -
  note exact = validateScriptNameInput_rejects [THEN conjunct1]
  have "validateScriptNameInput ''path/to/script'' ''.ps1'' \<noteq> None"
    by (rule validateScriptNameInput_rejects
          [THEN conjunct2, THEN conjunct2, THEN conjunct1, THEN mp]) simp
  moreover have "validateScriptNameInput ''what?'' ''.ps1'' \<noteq> None"
    by (rule validateScriptNameInput_rejects
          [THEN conjunct2, THEN conjunct2, THEN conjunct2, THEN conjunct1, THEN mp]) simp
  moreover have "validateScriptNameInput ''name.'' ''.ps1'' \<noteq> None"
    by (rule validateScriptNameInput_rejects
          [THEN conjunct2, THEN conjunct2, THEN conjunct2, THEN conjunct2, THEN conjunct1, THEN mp]) simp
  moreover have "validateScriptNameInput '' CON.ps1 '' ''.ps1'' \<noteq> None"
    unfolding exact
    by (simp add: string_eval parseName_def extname_def WINDOWS_RESERVED_BASENAMES_def)
  moreover have "validateScriptNameInput ''.PS1'' ''ps1'' \<noteq> None"
    unfolding exact
    by (simp add: string_eval normalizeExtension_def startsWith_def)
  moreover have "validateScriptNameInput ''script.sh'' ''.ps1'' \<noteq> None"
    unfolding exact
    by (simp add: string_eval normalizeExtension_def startsWith_def extname_def)
  moreover have "\<not> validateScriptNameInput '' my-script '' ''.ps1'' \<noteq> None"
    unfolding exact
    by (simp add: string_eval normalizeExtension_def startsWith_def extname_def parseName_def
          WINDOWS_RESERVED_BASENAMES_def)
  ultimately show ?thesis by simp
qed

section \<open>Registration of custom interpreters\<close>

lemma builtin_extensions:
  "BUILTIN_BY_EXTENSION e \<noteq> None \<longleftrightarrow> e \<in> {''.ps1'', ''.sh'', ''.zsh'', ''.py'', ''.js'', ''.ts''}"
  by (simp add: BUILTIN_BY_EXTENSION_def BUILTIN_SCRIPT_DESCRIPTORS_def)

text \<open>
  Claim C6. \<open>registerInterpreter\<close> throws exactly when the normalized extension is
  empty, or the trimmed command is empty, or the normalized extension is one of the six
  built-in extensions, whatever the command and the label. When it throws, the session
  is the one before the call: the registry is unchanged and no refresh was fired. When
  it returns, the registry holds the trimmed command and the label under the normalized
  extension, one refresh has been fired, and the handle remembers the normalized
  extension and the trimmed command.
\<close>

theorem registerInterpreter_outcome:
  "(isl (fst (registerInterpreter s ext cmd lbl)) \<longleftrightarrow>
      normalizeExtension ext = [] \<or> trim cmd = []
      \<or> normalizeExtension ext \<in> {''.ps1'', ''.sh'', ''.zsh'', ''.py'', ''.js'', ''.ts''})
   \<and> (isl (fst (registerInterpreter s ext cmd lbl)) \<longrightarrow> snd (registerInterpreter s ext cmd lbl) = s)
   \<and> (\<not> isl (fst (registerInterpreter s ext cmd lbl)) \<longrightarrow>
        fst (registerInterpreter s ext cmd lbl)
          = Inr \<lparr>handleExtension = normalizeExtension ext, handleCommand = trim cmd\<rparr>
        \<and> snd (registerInterpreter s ext cmd lbl)
          = s\<lparr>customInterpreters := (customInterpreters s)(normalizeExtension ext \<mapsto>
                  \<lparr>command = trim cmd, interpreterLabel = lbl\<rparr>),
               refreshes := Suc (refreshes s)\<rparr>)"
  using builtin_extensions [of "normalizeExtension ext"]
  by (simp add: registerInterpreter_def Let_def)

text \<open>
  \<open>' RB '\<close> with \<open>' ruby -w '\<close> is stored under \<open>.rb\<close> as \<open>ruby -w\<close> with one
  refresh; \<open>'PY'\<close> collides with the built-in \<open>.py\<close> and leaves the session as it was.
\<close>

theorem registerInterpreter_outcome_witness:
  "fst (registerInterpreter activated '' RB '' '' ruby -w '' None)
     = Inr \<lparr>handleExtension = ''.rb'', handleCommand = ''ruby -w''\<rparr>
   \<and> map_option command (customInterpreters (snd (registerInterpreter activated '' RB '' '' ruby -w '' None)) ''.rb'')
     = Some ''ruby -w''
   \<and> refreshes (snd (registerInterpreter activated '' RB '' '' ruby -w '' None)) = 1
   \<and> isl (fst (registerInterpreter activated ''PY'' ''python3'' (Some ''Mine'')))
   \<and> snd (registerInterpreter activated ''PY'' ''python3'' (Some ''Mine'')) = activated"
  using registerInterpreter_outcome [of activated "'' RB ''" "'' ruby -w ''" None]
        registerInterpreter_outcome [of activated "''PY''" "''python3''" "Some ''Mine''"]
  by (simp add: string_eval normalizeExtension_def startsWith_def activated_def)

section \<open>Disposal of a registration\<close>

lemma disposeRegistration_cases:
  "disposeRegistration s h =
     (if map_option command (customInterpreters s (handleExtension h)) = Some (handleCommand h)
      then s\<lparr>customInterpreters := (customInterpreters s)(handleExtension h := None),
             refreshes := Suc (refreshes s)\<rparr>
      else s)"
  by (auto simp add: disposeRegistration_def split: option.splits)

text \<open>
  Claim C7. Disposing a handle removes the entry of its extension, and fires one
  refresh, when the entry stored now has the command registered through the handle; in
  every other case (no entry, or an entry with another command) the session stays as
  it is, so nothing is removed and no refresh is fired. Disposing the same handle a
  second time changes nothing. When a second registration has put another command
  under the same extension, disposing the first handle leaves the session unchanged
  and the newer command stays registered.
\<close>

theorem disposeRegistration_guarded:
  "disposeRegistration s h =
     (if map_option command (customInterpreters s (handleExtension h)) = Some (handleCommand h)
      then s\<lparr>customInterpreters := (customInterpreters s)(handleExtension h := None),
             refreshes := Suc (refreshes s)\<rparr>
      else s)
   \<and> disposeRegistration (disposeRegistration s h) h = disposeRegistration s h
   \<and> (registerInterpreter s ext cmd lbl = (Inr h, s1) \<longrightarrow>
        registerInterpreter s1 ext' cmd' lbl' = (Inr h', s2) \<longrightarrow>
        handleExtension h' = handleExtension h \<longrightarrow> handleCommand h' \<noteq> handleCommand h \<longrightarrow>
          disposeRegistration s2 h = s2
          \<and> map_option command (customInterpreters s2 (handleExtension h)) = Some (handleCommand h'))"
proof (intro conjI impI)
  show "disposeRegistration s h =
     (if map_option command (customInterpreters s (handleExtension h)) = Some (handleCommand h)
      then s\<lparr>customInterpreters := (customInterpreters s)(handleExtension h := None),
             refreshes := Suc (refreshes s)\<rparr>
      else s)"
    by (rule disposeRegistration_cases)
next
  show "disposeRegistration (disposeRegistration s h) h = disposeRegistration s h"
    by (auto simp add: disposeRegistration_cases)
next
  assume r2: "registerInterpreter s1 ext' cmd' lbl' = (Inr h', s2)"
    and e: "handleExtension h' = handleExtension h" and c: "handleCommand h' \<noteq> handleCommand h"
  from r2 have "map_option command (customInterpreters s2 (handleExtension h')) = Some (handleCommand h')"
    by (auto simp add: registerInterpreter_def Let_def split: if_splits)
  with e c show "disposeRegistration s2 h = s2"
    by (auto simp add: disposeRegistration_cases)
  from r2 have "map_option command (customInterpreters s2 (handleExtension h')) = Some (handleCommand h')"
    by (auto simp add: registerInterpreter_def Let_def split: if_splits)
  with e show "map_option command (customInterpreters s2 (handleExtension h)) = Some (handleCommand h')"
    by simp
qed

lemma register_ruby:
  "registerInterpreter activated ''rb'' ''ruby'' None
     = (Inr \<lparr>handleExtension = ''.rb'', handleCommand = ''ruby''\<rparr>, rubySession)"
  by (simp add: registerInterpreter_def Let_def string_eval normalizeExtension_def startsWith_def
        activated_def rubySession_def BUILTIN_BY_EXTENSION_def BUILTIN_SCRIPT_DESCRIPTORS_def)

lemma register_jruby:
  "registerInterpreter rubySession ''.RB'' ''jruby'' None
     = (Inr \<lparr>handleExtension = ''.rb'', handleCommand = ''jruby''\<rparr>, jrubySession)"
  by (simp add: registerInterpreter_def Let_def string_eval normalizeExtension_def startsWith_def
        activated_def rubySession_def jrubySession_def BUILTIN_BY_EXTENSION_def
        BUILTIN_SCRIPT_DESCRIPTORS_def)

text \<open>
  After \<open>ruby\<close> and then \<open>jruby\<close> were registered for \<open>.rb\<close>, disposing the first handle
  keeps \<open>jruby\<close>; disposing it while \<open>ruby\<close> is still the entry removes the entry with
  a second refresh.
\<close>

theorem disposeRegistration_guarded_witness:
  "disposeRegistration jrubySession \<lparr>handleExtension = ''.rb'', handleCommand = ''ruby''\<rparr> = jrubySession
   \<and> map_option command (customInterpreters jrubySession ''.rb'') = Some ''jruby''
   \<and> customInterpreters (disposeRegistration rubySession \<lparr>handleExtension = ''.rb'', handleCommand = ''ruby''\<rparr>) ''.rb''
       = None
   \<and> refreshes (disposeRegistration rubySession \<lparr>handleExtension = ''.rb'', handleCommand = ''ruby''\<rparr>) = 2"
proof -
  let ?h = "\<lparr>handleExtension = ''.rb'', handleCommand = ''ruby''\<rparr>"
  let ?h' = "\<lparr>handleExtension = ''.rb'', handleCommand = ''jruby''\<rparr>"
  note later = disposeRegistration_guarded
    [where s = activated and ext = "''rb''" and cmd = "''ruby''" and lbl = None and h = ?h
       and ?s1.0 = rubySession and ext' = "''.RB''" and cmd' = "''jruby''" and lbl' = None
       and h' = ?h' and ?s2.0 = jrubySession,
     THEN conjunct2, THEN conjunct2, rule_format, OF register_ruby register_jruby]
  have "disposeRegistration jrubySession ?h = jrubySession
        \<and> map_option command (customInterpreters jrubySession ''.rb'') = Some ''jruby''"
    using later by simp
  moreover have "customInterpreters (disposeRegistration rubySession ?h) ''.rb'' = None
        \<and> refreshes (disposeRegistration rubySession ?h) = 2"
    using disposeRegistration_guarded [of rubySession ?h, THEN conjunct1]
    by (simp add: rubySession_def)
  ultimately show ?thesis by simp
qed

section \<open>Scripts view: the read-failure message\<close>

lemma getChildrenCalls_Cons:
  "getChildrenCalls p (c # cs) = getChildrenCalls (snd (getChildren p c)) cs"
  by (simp add: getChildrenCalls_def)

lemma getChildrenCalls_shown_flag:
  assumes "hasShownReadError p" and "\<forall>c \<in> set calls. \<not> isLoadReturns c"
  shows "getChildrenCalls p calls = p"
  using assms
proof (induction calls)
  case Nil
  then show ?case by (simp add: getChildrenCalls_def)
next
  case (Cons c cs)
  then have "snd (getChildren p c) = p"
    by (cases "(p, c)" rule: getChildren.cases) auto
  with Cons show ?case by (simp add: getChildrenCalls_Cons)
qed

lemma getChildrenCalls_failures:
  assumes "\<forall>c \<in> set calls. \<not> isLoadReturns c"
  shows "readErrorsShown (getChildrenCalls p calls) =
           readErrorsShown p @
             (if hasShownReadError p then []
              else map (\<lambda>m. ''QuickIt failed to load scripts: '' @ m) (take 1 (failedLoads calls)))"
  using assms
proof (induction calls arbitrary: p)
  case Nil
  then show ?case by (simp add: getChildrenCalls_def)
next
  case (Cons c cs)
  show ?case
  proof (cases "hasShownReadError p")
    case True
    with Cons.prems show ?thesis by (simp add: getChildrenCalls_shown_flag)
  next
    case False
    show ?thesis
    proof (cases c)
      case ChildrenOfElement
      with False Cons show ?thesis by (simp add: getChildrenCalls_Cons)
    next
      case (ChildrenOfRoot outcome)
      with Cons.prems obtain m where m: "outcome = LoadThrows m"
        by (cases outcome) auto
      let ?q = "p\<lparr>hasShownReadError := True,
                 readErrorsShown := readErrorsShown p @ [''QuickIt failed to load scripts: '' @ m]\<rparr>"
      have "getChildrenCalls p (c # cs) = getChildrenCalls ?q cs"
        using False ChildrenOfRoot m by (simp add: getChildrenCalls_Cons)
      also have "\<dots> = ?q"
        using Cons.prems by (simp add: getChildrenCalls_shown_flag)
      finally show ?thesis
        using False ChildrenOfRoot m by simp
    qed
  qed
qed

text \<open>
  Claim C9, as stated, at three calls on a new provider: the load fails, succeeds, and
  fails again. The message is shown twice, because the successful load clears the flag.
\<close>

theorem getChildren_repeats_after_load_counterexample:
  "length (readErrorsShown (getChildrenCalls newProvider
      [ChildrenOfRoot (LoadThrows ''EACCES''), ChildrenOfRoot (LoadReturns []),
       ChildrenOfRoot (LoadThrows ''EACCES'')])) = 2"
  by (simp add: getChildrenCalls_def newProvider_def)

text \<open>
  Claim C9, amended. Over any sequence of \<open>getChildren\<close> calls without a successful
  load of the root, the provider shows the failure message at most once: nothing when
  the flag is already set, and otherwise only the message of the first failing call.
  A successful load of the root clears the flag, so the first failure after it shows
  the message again; a call for an element leaves the provider as it is.
\<close>

theorem getChildren_read_error_once:
  "((\<forall>c \<in> set calls. \<not> isLoadReturns c) \<longrightarrow>
      readErrorsShown (getChildrenCalls p calls) =
        readErrorsShown p @
          (if hasShownReadError p then []
           else map (\<lambda>m. ''QuickIt failed to load scripts: '' @ m) (take 1 (failedLoads calls))))
   \<and> snd (getChildren p (ChildrenOfRoot (LoadReturns scriptItems))) = p\<lparr>hasShownReadError := False\<rparr>
   \<and> snd (getChildren p ChildrenOfElement) = p"
  using getChildrenCalls_failures [of calls p] by simp

text \<open>Three failing calls and a call for an element on a new provider: one message.\<close>

theorem getChildren_read_error_once_witness:
  "readErrorsShown (getChildrenCalls newProvider
      [ChildrenOfRoot (LoadThrows ''EACCES''), ChildrenOfElement, ChildrenOfRoot (LoadThrows ''EIO''),
       ChildrenOfRoot (LoadThrows ''EACCES'')]) = [''QuickIt failed to load scripts: EACCES'']"
  using getChildren_read_error_once
    [of "[ChildrenOfRoot (LoadThrows ''EACCES''), ChildrenOfElement, ChildrenOfRoot (LoadThrows ''EIO''),
          ChildrenOfRoot (LoadThrows ''EACCES'')]" newProvider]
  by (simp add: newProvider_def)

section \<open>Run supervisor: one settlement\<close>

lemma isOtherTask_iff: "\<not> isOtherTask runId d \<longleftrightarrow> d = Some (quickItDefinition runId)"
  by (cases d) (auto simp add: isOtherTask_def quickItDefinition_def)

lemma deliver_settled: "settled sv \<Longrightarrow> deliver runId sv e = sv"
  by (cases e) (simp_all add: settle_def)

lemma deliver_all_settled: "settled sv \<Longrightarrow> foldl (deliver runId) sv es = sv"
  by (induction es) (simp_all add: deliver_settled)

lemma deliver_unrelated: "\<not> settlesRun runId e \<Longrightarrow> deliver runId sv e = sv"
  by (cases e) (simp_all add: isOtherTask_iff [symmetric])

lemma deliver_first:
  "settlesRun runId e \<Longrightarrow>
     deliver runId pending e =
       \<lparr>settled = True, promise = settlementOf e, endTaskDisposals = 1, endTaskProcessDisposals = 1\<rparr>"
  by (cases e) (simp_all add: isOtherTask_iff [symmetric] settle_def pending_def orElse_def)

lemma executeQuickItTask_first:
  "executeQuickItTask runId events =
     (case find (settlesRun runId) events of
        None \<Rightarrow> pending
      | Some e \<Rightarrow> \<lparr>settled = True, promise = settlementOf e,
                   endTaskDisposals = 1, endTaskProcessDisposals = 1\<rparr>)"
  unfolding executeQuickItTask_def
proof (induction events)
  case Nil
  show ?case by simp
next
  case (Cons e es)
  show ?case
  proof (cases "settlesRun runId e")
    case True
    then show ?thesis by (simp add: deliver_first deliver_all_settled)
  next
    case False
    with Cons show ?thesis by (simp add: deliver_unrelated)
  qed
qed

text \<open>
  Claim C1, as stated, at two events for the run \<open>r1\<close>: first the end of a task of
  type \<open>shell\<close> whose definition carries \<open>runId = r1\<close>, then the process end of the
  quick-it task with exit code 3. The first event carries the matching identifier, so
  the promise should resolve without an exit code; the listener drops it for its type
  and the promise resolves with 3.
\<close>

theorem executeQuickItTask_type_counterexample:
  "promise (executeQuickItTask ''r1''
      [foreignEnd, DidEndTaskProcess (Some (quickItDefinition ''r1'')) (Some 3)])
   \<noteq> spec_settlement ''r1'' [foreignEnd, DidEndTaskProcess (Some (quickItDefinition ''r1'')) (Some 3)]"
  by (simp add: executeQuickItTask_def foreignEnd_def quickItDefinition_def isOtherTask_def settle_def
        pending_def orElse_def spec_settlement_def)

text \<open>
  Claim C1, amended. A signal settles a run when it is the process-end event or the
  end-of-task event of a task whose definition has type \<open>quick-it\<close> and the run's
  \<open>runId\<close>, or when it is the rejection of the launch request. For every sequence of
  events, \<open>executeQuickItTask\<close> is still pending with no subscription disposed when no
  event of the sequence settles the run; otherwise it is settled by the first such
  event (resolved with the exit code of a process end, resolved without a code by an
  end of task, rejected with the failure of a launch rejection), and each of the two
  subscriptions has been disposed exactly once, wherever that event stands and
  whatever follows it. Once settled, further events change nothing.
\<close>

theorem executeQuickItTask_settles_once:
  "executeQuickItTask runId events =
     (case find (settlesRun runId) events of
        None \<Rightarrow> pending
      | Some e \<Rightarrow> \<lparr>settled = True, promise = settlementOf e,
                   endTaskDisposals = 1, endTaskProcessDisposals = 1\<rparr>)
   \<and> (settled (executeQuickItTask runId events) \<longrightarrow>
        executeQuickItTask runId (events @ later) = executeQuickItTask runId events)"
proof
  show "executeQuickItTask runId events =
     (case find (settlesRun runId) events of
        None \<Rightarrow> pending
      | Some e \<Rightarrow> \<lparr>settled = True, promise = settlementOf e,
                   endTaskDisposals = 1, endTaskProcessDisposals = 1\<rparr>)"
    by (rule executeQuickItTask_first)
next
  show "settled (executeQuickItTask runId events) \<longrightarrow>
        executeQuickItTask runId (events @ later) = executeQuickItTask runId events"
    by (simp add: executeQuickItTask_def deliver_all_settled)
qed

text \<open>
  Events of other tasks, then the process end with code 3, then duplicates: resolved
  with 3, one disposal each. A launch rejection before the end of the task: rejected.
\<close>

theorem executeQuickItTask_settles_once_witness:
  "executeQuickItTask ''r1''
     [ExecuteTaskFulfilled, foreignEnd, DidEndTask (Some (quickItDefinition ''r2'')),
      DidEndTaskProcess (Some (quickItDefinition ''r1'')) (Some 3),
      DidEndTask (Some (quickItDefinition ''r1'')),
      DidEndTaskProcess (Some (quickItDefinition ''r1'')) (Some 0)]
   = \<lparr>settled = True, promise = Some (Resolved (Some 3)),
      endTaskDisposals = 1, endTaskProcessDisposals = 1\<rparr>
   \<and> executeQuickItTask ''r1''
     [ExecuteTaskRejected ''no terminal'', DidEndTask (Some (quickItDefinition ''r1''))]
   = \<lparr>settled = True, promise = Some (Rejected ''no terminal''),
      endTaskDisposals = 1, endTaskProcessDisposals = 1\<rparr>"
  using executeQuickItTask_settles_once
          [of "''r1''" "[ExecuteTaskFulfilled, foreignEnd, DidEndTask (Some (quickItDefinition ''r2'')),
      DidEndTaskProcess (Some (quickItDefinition ''r1'')) (Some 3),
      DidEndTask (Some (quickItDefinition ''r1'')),
      DidEndTaskProcess (Some (quickItDefinition ''r1'')) (Some 0)]"]
        executeQuickItTask_settles_once
          [of "''r1''" "[ExecuteTaskRejected ''no terminal'', DidEndTask (Some (quickItDefinition ''r1''))]"]
  by (simp add: foreignEnd_def quickItDefinition_def)

section \<open>The run command: what the user is told\<close>

lemma digit_char:
  assumes "n < 10"
  shows "of_char (''0123456789'' ! n) = 48 + n \<and> ''0123456789'' ! n \<noteq> CHR ''-''"
proof -
  from assms have "n \<in> {0, 1, 2, 3, 4, 5, 6, 7, 8, 9}" by auto
  then show ?thesis by (elim insertE emptyE) simp_all
qed

lemma digitsValue_showNat: "digitsValue (showNat n) = n"
proof (induction n rule: showNat.induct)
  case (1 n)
  show ?case
  proof (cases "n < 10")
    case True
    then show ?thesis
      using digit_char [of n] by (subst showNat.simps) (simp add: digitsValue_def)
  next
    case False
    then have "digitsValue (showNat (n div 10)) = n div 10" using 1 by simp
    moreover have "of_char (''0123456789'' ! (n mod 10)) = 48 + n mod 10"
      using digit_char [of "n mod 10"] by simp
    ultimately show ?thesis
      using False by (subst showNat.simps) (simp add: digitsValue_def)
  qed
qed

lemma showNat_no_minus: "showNat n \<noteq> [] \<and> CHR ''-'' \<notin> set (showNat n)"
proof (induction n rule: showNat.induct)
  case (1 n)
  show ?case
  proof (cases "n < 10")
    case True
    then show ?thesis
      using digit_char [of n] by (subst (1 2) showNat.simps) auto
  next
    case False
    then have "CHR ''-'' \<notin> set (showNat (n div 10))" using 1 by simp
    then show ?thesis
      using False digit_char [of "n mod 10"] by (subst (1 2) showNat.simps) auto
  qed
qed

lemma showInt_inj: "showInt a = showInt b \<Longrightarrow> a = b"
proof -
  assume eq: "showInt a = showInt b"
  have neg: "hd (showInt i) = CHR ''-'' \<longleftrightarrow> i < 0" for i
    using showNat_no_minus [of "nat i"] by (cases "showNat (nat i)") (auto simp add: showInt_def)
  from eq neg [of a] neg [of b] have sign: "a < 0 \<longleftrightarrow> b < 0" by simp
  show "a = b"
  proof (cases "a < 0")
    case True
    with sign eq have "showNat (nat (- a)) = showNat (nat (- b))" by (simp add: showInt_def)
    then have "digitsValue (showNat (nat (- a))) = digitsValue (showNat (nat (- b)))" by simp
    then have "nat (- a) = nat (- b)" by (simp add: digitsValue_showNat)
    with True sign show ?thesis by simp
  next
    case False
    with sign eq have "showNat (nat a) = showNat (nat b)" by (simp add: showInt_def)
    then have "digitsValue (showNat (nat a)) = digitsValue (showNat (nat b))" by simp
    then have "nat a = nat b" by (simp add: digitsValue_showNat)
    with False sign show ?thesis by simp
  qed
qed

lemma empty_command_unavailable: "\<not> isCommandAvailable env []"
  by (simp add: isCommandAvailable_def extractCommandToken_def trim_def)

lemma runScriptCommand_launched:
  assumes "resolveInterpreterCommand configuration env s (itemDescriptor it) = (Some ic, probed, s1)"
    and "isCommandAvailable env ic"
  shows "runScriptCommand configuration env s runId events (Some it) =
     (Some (buildRunCommand (itemDescriptor it) (processPlatform env) ic (itemFsPath it)),
      s1\<lparr>shown := shown s1 @
            [Information (''QuickIt: Executing '' @ [dquote] @ itemBaseName it @ [dquote] @ ''...'')] @
            (case promise (executeQuickItTask runId events) of
               None \<Rightarrow> []
             | Some outcome \<Rightarrow> [reportSettlement (itemBaseName it) outcome])\<rparr>)"
  using assms empty_command_unavailable [of env] by (auto simp add: runScriptCommand_def Let_def)

text \<open>
  Claim C4. Take a run that has been launched: an interpreter was resolved and found
  available. After the message that the script is executing, what \<open>runScriptCommand\<close>
  shows is decided by the first event that settles the run. A process end without an
  exit code or with exit code 0, and an end of task (which carries no code), give the
  information message that the script finished; a process end with another exit code
  gives a warning whose text holds that code in decimal; a rejected launch gives an
  error message with the failure. Distinct exit codes are written differently, so the
  warning names its code.
\<close>

theorem runScriptCommand_reports_outcome:
  assumes "resolveInterpreterCommand configuration env s (itemDescriptor it) = (Some ic, probed, s1)"
    and "isCommandAvailable env ic"
  shows "shown (snd (runScriptCommand configuration env s runId events (Some it))) =
           shown s1
           @ [Information (''QuickIt: Executing '' @ [dquote] @ itemBaseName it @ [dquote] @ ''...'')]
           @ (case find (settlesRun runId) events of
                None \<Rightarrow> []
              | Some (DidEndTaskProcess d None) \<Rightarrow>
                  [Information (''QuickIt: Finished '' @ [dquote] @ itemBaseName it @ [dquote] @ ''.'')]
              | Some (DidEndTaskProcess d (Some c)) \<Rightarrow>
                  if c = 0
                  then [Information (''QuickIt: Finished '' @ [dquote] @ itemBaseName it @ [dquote] @ ''.'')]
                  else [Warning (''QuickIt: Finished '' @ [dquote] @ itemBaseName it @ [dquote]
                                 @ '' (exit code '' @ showInt c @ '').'')]
              | Some (DidEndTask d) \<Rightarrow>
                  [Information (''QuickIt: Finished '' @ [dquote] @ itemBaseName it @ [dquote] @ ''.'')]
              | Some ExecuteTaskFulfilled \<Rightarrow> []
              | Some (ExecuteTaskRejected e) \<Rightarrow>
                  [ErrorMessage (''QuickIt failed to run the selected script: '' @ e)])
         \<and> (\<forall>a b. showInt a = showInt b \<longrightarrow> a = b)"
proof
  show "\<forall>a b. showInt a = showInt b \<longrightarrow> a = b"
    using showInt_inj by blast
next
  have "promise (executeQuickItTask runId events)
          = (case find (settlesRun runId) events of None \<Rightarrow> None | Some e \<Rightarrow> settlementOf e)"
    by (simp add: executeQuickItTask_first pending_def split: option.splits)
  then show "shown (snd (runScriptCommand configuration env s runId events (Some it))) =
           shown s1
           @ [Information (''QuickIt: Executing '' @ [dquote] @ itemBaseName it @ [dquote] @ ''...'')]
           @ (case find (settlesRun runId) events of
                None \<Rightarrow> []
              | Some (DidEndTaskProcess d None) \<Rightarrow>
                  [Information (''QuickIt: Finished '' @ [dquote] @ itemBaseName it @ [dquote] @ ''.'')]
              | Some (DidEndTaskProcess d (Some c)) \<Rightarrow>
                  if c = 0
                  then [Information (''QuickIt: Finished '' @ [dquote] @ itemBaseName it @ [dquote] @ ''.'')]
                  else [Warning (''QuickIt: Finished '' @ [dquote] @ itemBaseName it @ [dquote]
                                 @ '' (exit code '' @ showInt c @ '').'')]
              | Some (DidEndTask d) \<Rightarrow>
                  [Information (''QuickIt: Finished '' @ [dquote] @ itemBaseName it @ [dquote] @ ''.'')]
              | Some ExecuteTaskFulfilled \<Rightarrow> []
              | Some (ExecuteTaskRejected e) \<Rightarrow>
                  [ErrorMessage (''QuickIt failed to run the selected script: '' @ e)])"
    by (simp add: runScriptCommand_launched [OF assms] reportSettlement_def notifyQuickItError_def
          split: option.splits hostEvent.splits)
qed

lemma sample_resolve:
  "resolveInterpreterCommand userSettings sampleEnvironment activated (itemDescriptor sampleItem)
     = (Some ''python3'', [], activated)"
  by (simp add: resolveInterpreterCommand_def sampleItem_def BUILTIN_SCRIPT_DESCRIPTORS_def
        getQuickItSettingValue_def getQuickItConfigurationValue_def userSettings_def
        hostConfiguration_def normalizeOptionalString_def orElse_def trim_def isWhiteSpace_def
        Let_def)

lemma sample_available: "isCommandAvailable sampleEnvironment ''python3''"
  by (simp add: isCommandAvailable_def extractCommandToken_def sampleEnvironment_def Let_def
        trim_def isWhiteSpace_def startsWith_def dquote_def squote_def searchWhiteSpace_def
        isAbsolute_def)

text \<open>
  The sample run ending with exit code 3, ending with the end-of-task event only, and
  failing to launch.
\<close>

theorem runScriptCommand_reports_outcome_witness:
  "shown (snd (runScriptCommand userSettings sampleEnvironment activated ''r1''
       [DidEndTaskProcess (Some (quickItDefinition ''r1'')) (Some 3), DidEndTask (Some (quickItDefinition ''r1''))]
       (Some sampleItem)))
     = [Information (''QuickIt: Executing '' @ [dquote] @ ''job.py'' @ [dquote] @ ''...''),
        Warning (''QuickIt: Finished '' @ [dquote] @ ''job.py'' @ [dquote] @ '' (exit code 3).'')]
   \<and> shown (snd (runScriptCommand userSettings sampleEnvironment activated ''r1''
       [DidEndTask (Some (quickItDefinition ''r1''))] (Some sampleItem)))
     = [Information (''QuickIt: Executing '' @ [dquote] @ ''job.py'' @ [dquote] @ ''...''),
        Information (''QuickIt: Finished '' @ [dquote] @ ''job.py'' @ [dquote] @ ''.'')]
   \<and> shown (snd (runScriptCommand userSettings sampleEnvironment activated ''r1''
       [ExecuteTaskRejected ''no terminal''] (Some sampleItem)))
     = [Information (''QuickIt: Executing '' @ [dquote] @ ''job.py'' @ [dquote] @ ''...''),
        ErrorMessage ''QuickIt failed to run the selected script: no terminal'']"
proof -
  have three: "showInt 3 = ''3''" by code_simp
  note outcome = runScriptCommand_reports_outcome [OF sample_resolve sample_available, THEN conjunct1]
  show ?thesis
    unfolding outcome
    by (simp add: three quickItDefinition_def sampleItem_def activated_def)
qed

section \<open>Settings: the user scope\<close>

lemma getQuickItSettingValue_fst:
  "fst (getQuickItSettingValue c s k) = fst (getQuickItConfigurationValue c k)"
  by (simp add: getQuickItSettingValue_def split: prod.splits)

lemma getQuickItConfigurationValue_scoped:
  assumes "inspect c k = Some i" and "globalValue i \<noteq> None \<or> defaultValue i \<noteq> None"
  shows "fst (getQuickItConfigurationValue c k)
           = normalizeOptionalString (orElse (globalValue i) (defaultValue i))"
  using assms by (auto simp add: getQuickItConfigurationValue_def orElse_def split: option.splits)

lemma getQuickItSettingValue_snd:
  "snd (getQuickItSettingValue c s k) =
     (if snd (getQuickItConfigurationValue c k) \<and> \<not> hasShownWorkspaceConfigurationWarning s
      then s\<lparr>hasShownWorkspaceConfigurationWarning := True,
             shown := shown s @ [Warning workspaceOverrideWarning]\<rparr>
      else s)"
  by (simp add: getQuickItSettingValue_def split: prod.splits)

lemma readSettings_state:
  "readSettings s reads =
     (if \<not> hasShownWorkspaceConfigurationWarning s
         \<and> (\<exists>(c, k) \<in> set reads. snd (getQuickItConfigurationValue c k))
      then s\<lparr>hasShownWorkspaceConfigurationWarning := True,
             shown := shown s @ [Warning workspaceOverrideWarning]\<rparr>
      else s)"
proof (induction reads arbitrary: s)
  case Nil
  show ?case by simp
next
  case (Cons r rs)
  obtain c k where r: "r = (c, k)" by (cases r)
  show ?case
  proof (cases "snd (getQuickItConfigurationValue c k) \<and> \<not> hasShownWorkspaceConfigurationWarning s")
    case True
    then show ?thesis
      by (simp add: r getQuickItSettingValue_snd Cons.IH)
  next
    case False
    then have "snd (getQuickItSettingValue c s k) = s"
      by (simp add: getQuickItSettingValue_snd)
    with False show ?thesis
      by (auto simp add: r Cons.IH)
  qed
qed

lemma readSettings_warns_once:
  "shown (readSettings s reads) =
     shown s @ (if \<not> hasShownWorkspaceConfigurationWarning s
                   \<and> (\<exists>(c, k) \<in> set reads. snd (getQuickItConfigurationValue c k))
                then [Warning workspaceOverrideWarning] else [])
   \<and> hasShownWorkspaceConfigurationWarning (readSettings s reads) =
       (hasShownWorkspaceConfigurationWarning s
        \<or> (\<exists>(c, k) \<in> set reads. snd (getQuickItConfigurationValue c k)))"
  by (simp add: readSettings_state)

lemma registered_value:
  "getQuickItConfigurationValue (registeredConfiguration dflt user ws wsf) k =
     (normalizeOptionalString (Some (case user k of None \<Rightarrow> dflt k | Some g \<Rightarrow> g)),
      ws k \<noteq> None \<or> wsf k \<noteq> None)"
  by (simp add: getQuickItConfigurationValue_def registeredConfiguration_def hostConfiguration_def
        orElse_def split: option.splits)

text \<open>
  Claim C5. Take a registered setting: the editor reports its built-in default
  \<open>dflt k\<close>, its user-level value \<open>user k\<close> if one is set, and its workspace and
  workspace-folder values. Two configurations with the same defaults and user-level
  values give the same value for every key, whatever their workspace and
  workspace-folder values are: the value read is the user-level value, or the default
  when no user-level value is set, trimmed, and nothing when that is blank. A read sees
  a workspace override exactly when a workspace or a workspace-folder value is set for
  its key. The same holds for any configuration object whose inspection of the key
  reports a user-level value or a default, whatever its \<open>get\<close> returns. Over any
  sequence of reads in one activation the warning is shown once, by the first read
  that sees an override while the flag is unset, and never when the flag is set before
  or no read sees an override; after such a read the flag stays set.
\<close>

theorem getQuickItSettingValue_user_scope:
  "fst (getQuickItSettingValue (registeredConfiguration dflt user ws1 wsf1) s1 k)
     = fst (getQuickItSettingValue (registeredConfiguration dflt user ws2 wsf2) s2 k)
   \<and> fst (getQuickItSettingValue (registeredConfiguration dflt user ws wsf) s k)
     = normalizeOptionalString (Some (case user k of None \<Rightarrow> dflt k | Some g \<Rightarrow> g))
   \<and> snd (getQuickItConfigurationValue (registeredConfiguration dflt user ws wsf) k)
     = (ws k \<noteq> None \<or> wsf k \<noteq> None)
   \<and> (inspect c1 k = Some i1 \<and> inspect c2 k = Some i2
      \<and> globalValue i1 = globalValue i2 \<and> defaultValue i1 = defaultValue i2
      \<and> (globalValue i1 \<noteq> None \<or> defaultValue i1 \<noteq> None)
    \<longrightarrow> fst (getQuickItSettingValue c1 s1 k) = fst (getQuickItSettingValue c2 s2 k)
        \<and> fst (getQuickItSettingValue c1 s1 k)
            = normalizeOptionalString (orElse (globalValue i1) (defaultValue i1)))
   \<and> (inspect c k = Some i \<longrightarrow>
        snd (getQuickItConfigurationValue c k) = (workspaceValue i \<noteq> None \<or> workspaceFolderValue i \<noteq> None))
   \<and> shown (readSettings s reads) =
        shown s @ (if \<not> hasShownWorkspaceConfigurationWarning s
                      \<and> (\<exists>(c, k) \<in> set reads. snd (getQuickItConfigurationValue c k))
                   then [Warning workspaceOverrideWarning] else [])
   \<and> hasShownWorkspaceConfigurationWarning (readSettings s reads) =
        (hasShownWorkspaceConfigurationWarning s
         \<or> (\<exists>(c, k) \<in> set reads. snd (getQuickItConfigurationValue c k)))"
proof (intro conjI impI)
  show "fst (getQuickItSettingValue (registeredConfiguration dflt user ws1 wsf1) s1 k)
     = fst (getQuickItSettingValue (registeredConfiguration dflt user ws2 wsf2) s2 k)"
    by (simp add: getQuickItSettingValue_fst registered_value)
next
  show "fst (getQuickItSettingValue (registeredConfiguration dflt user ws wsf) s k)
     = normalizeOptionalString (Some (case user k of None \<Rightarrow> dflt k | Some g \<Rightarrow> g))"
    by (simp add: getQuickItSettingValue_fst registered_value)
next
  show "snd (getQuickItConfigurationValue (registeredConfiguration dflt user ws wsf) k)
     = (ws k \<noteq> None \<or> wsf k \<noteq> None)"
    by (simp add: registered_value)
next
  assume a: "inspect c1 k = Some i1 \<and> inspect c2 k = Some i2
      \<and> globalValue i1 = globalValue i2 \<and> defaultValue i1 = defaultValue i2
      \<and> (globalValue i1 \<noteq> None \<or> defaultValue i1 \<noteq> None)"
  then have "inspect c1 k = Some i1" and "globalValue i1 \<noteq> None \<or> defaultValue i1 \<noteq> None"
    by auto
  then have v1: "fst (getQuickItSettingValue c1 s1 k)
            = normalizeOptionalString (orElse (globalValue i1) (defaultValue i1))"
    unfolding getQuickItSettingValue_fst by (rule getQuickItConfigurationValue_scoped)
  from a have "inspect c2 k = Some i2" and "globalValue i2 \<noteq> None \<or> defaultValue i2 \<noteq> None"
    by auto
  then have v2: "fst (getQuickItSettingValue c2 s2 k)
            = normalizeOptionalString (orElse (globalValue i2) (defaultValue i2))"
    unfolding getQuickItSettingValue_fst by (rule getQuickItConfigurationValue_scoped)
  from a v1 v2 show "fst (getQuickItSettingValue c1 s1 k) = fst (getQuickItSettingValue c2 s2 k)"
    by simp
  from v1 show "fst (getQuickItSettingValue c1 s1 k)
            = normalizeOptionalString (orElse (globalValue i1) (defaultValue i1))" .
next
  assume "inspect c k = Some i"
  then show "snd (getQuickItConfigurationValue c k)
               = (workspaceValue i \<noteq> None \<or> workspaceFolderValue i \<noteq> None)"
    by (simp add: getQuickItConfigurationValue_def)
next
  show "shown (readSettings s reads) =
        shown s @ (if \<not> hasShownWorkspaceConfigurationWarning s
                      \<and> (\<exists>(c, k) \<in> set reads. snd (getQuickItConfigurationValue c k))
                   then [Warning workspaceOverrideWarning] else [])"
    using readSettings_warns_once [of s reads] by (rule conjunct1)
next
  show "hasShownWorkspaceConfigurationWarning (readSettings s reads) =
        (hasShownWorkspaceConfigurationWarning s
         \<or> (\<exists>(c, k) \<in> set reads. snd (getQuickItConfigurationValue c k)))"
    using readSettings_warns_once [of s reads] by (rule conjunct2)
qed

text \<open>
  Empty defaults, the user-level value \<open>' python3 '\<close> and a workspace value for every
  key: \<open>python3\<close> is read for \<open>interpreters.python\<close>. The sample configuration with and
  without the workspace value gives \<open>python3\<close> too; four reads, three of them with an
  override, show one warning.
\<close>

theorem getQuickItSettingValue_user_scope_witness:
  "fst (getQuickItSettingValue
          (registeredConfiguration (\<lambda>k. [])
             (\<lambda>k. if k = ''interpreters.python'' then Some '' python3 '' else None)
             (\<lambda>k. Some ''./evil.sh'') (\<lambda>k. None))
          activated ''interpreters.python'') = Some ''python3''
   \<and> fst (getQuickItSettingValue overriddenSettings activated ''interpreters.python'') = Some ''python3''
   \<and> fst (getQuickItSettingValue userSettings activated ''interpreters.python'') = Some ''python3''
   \<and> shown (readSettings activated
        [(userSettings, ''scriptDirectory''), (overriddenSettings, ''interpreters.python''),
         (overriddenSettings, ''scriptDirectory''), (overriddenSettings, ''interpreters.python'')])
       = [Warning workspaceOverrideWarning]"
proof -
  let ?over = "\<lparr>defaultValue = Some [], globalValue = Some '' python3 '',
              workspaceValue = Some ''./evil.sh'', workspaceFolderValue = None\<rparr>"
  let ?user = "\<lparr>defaultValue = Some [], globalValue = Some '' python3 '',
              workspaceValue = None, workspaceFolderValue = None\<rparr>"
  have registered: "fst (getQuickItSettingValue
          (registeredConfiguration (\<lambda>k. [])
             (\<lambda>k. if k = ''interpreters.python'' then Some '' python3 '' else None)
             (\<lambda>k. Some ''./evil.sh'') (\<lambda>k. None))
          activated ''interpreters.python'') = Some ''python3''"
    unfolding getQuickItSettingValue_user_scope [THEN conjunct2, THEN conjunct1]
    by (simp add: normalizeOptionalString_def trim_def isWhiteSpace_def)
  have i1: "inspect overriddenSettings ''interpreters.python'' = Some ?over"
    by (simp add: overriddenSettings_def hostConfiguration_def)
  have i2: "inspect userSettings ''interpreters.python'' = Some ?user"
    by (simp add: userSettings_def hostConfiguration_def)
  note scope = getQuickItSettingValue_user_scope
    [where ?c1.0 = overriddenSettings and ?c2.0 = userSettings and k = "''interpreters.python''"
       and ?i1.0 = "?over" and ?i2.0 = "?user" and ?s1.0 = activated and ?s2.0 = activated,
     THEN conjunct2, THEN conjunct2, THEN conjunct2, THEN conjunct1, rule_format]
  have same: "fst (getQuickItSettingValue overriddenSettings activated ''interpreters.python'')
                  = fst (getQuickItSettingValue userSettings activated ''interpreters.python'')
                \<and> fst (getQuickItSettingValue overriddenSettings activated ''interpreters.python'')
                  = Some ''python3''"
  proof -
    have pre: "inspect overriddenSettings ''interpreters.python'' = Some ?over
        \<and> inspect userSettings ''interpreters.python'' = Some ?user
        \<and> globalValue ?over = globalValue ?user \<and> defaultValue ?over = defaultValue ?user
        \<and> (globalValue ?over \<noteq> None \<or> defaultValue ?over \<noteq> None)"
      using i1 i2 by simp
    have "normalizeOptionalString (orElse (globalValue ?over) (defaultValue ?over)) = Some ''python3''"
      by (simp add: normalizeOptionalString_def orElse_def trim_def isWhiteSpace_def)
    with scope [OF pre] show ?thesis by metis
  qed
  have override: "snd (getQuickItConfigurationValue overriddenSettings k)" for k
    by (simp add: getQuickItConfigurationValue_def overriddenSettings_def hostConfiguration_def)
  have warned: "shown (readSettings activated
        [(userSettings, ''scriptDirectory''), (overriddenSettings, ''interpreters.python''),
         (overriddenSettings, ''scriptDirectory''), (overriddenSettings, ''interpreters.python'')])
       = [Warning workspaceOverrideWarning]"
    using getQuickItSettingValue_user_scope
      [where s = activated and reads = "[(userSettings, ''scriptDirectory''),
         (overriddenSettings, ''interpreters.python''), (overriddenSettings, ''scriptDirectory''),
         (overriddenSettings, ''interpreters.python'')]",
       THEN conjunct2, THEN conjunct2, THEN conjunct2, THEN conjunct2, THEN conjunct2, THEN conjunct1]
    by (simp add: override activated_def)
  from registered same warned show ?thesis by metis
qed

section \<open>Interpreter resolver: the order of resolution\<close>

lemma probeCandidates_find:
  "probeCandidates env cs =
     (find (isCommandAvailable env) cs,
      takeWhile (\<lambda>c. \<not> isCommandAvailable env c) cs
        @ take 1 (dropWhile (\<lambda>c. \<not> isCommandAvailable env c) cs))"
  by (induction cs) simp_all

lemma configured_value_not_empty:
  "fst (getQuickItConfigurationValue configuration k) = Some v \<Longrightarrow> v \<noteq> []"
  by (auto simp add: getQuickItConfigurationValue_def normalizeOptionalString_def Let_def
        split: option.splits if_splits)

lemma resolveInterpreterCommand_configured:
  assumes "interpreterSetting d = Some k" and "k \<noteq> []"
    and "fst (getQuickItConfigurationValue configuration k) = Some v"
  shows "resolveInterpreterCommand configuration env s d
           = (Some v, [], snd (getQuickItSettingValue configuration s k))"
  using assms getQuickItSettingValue_fst [of configuration s k] configured_value_not_empty [OF assms(3)]
  by (cases "getQuickItSettingValue configuration s k") (simp add: resolveInterpreterCommand_def)

lemma resolveInterpreterCommand_probing:
  assumes "interpreterSetting d = None \<or> interpreterSetting d = Some []
           \<or> (interpreterSetting d = Some k \<and> fst (getQuickItConfigurationValue configuration k) = None)"
  shows "fst (resolveInterpreterCommand configuration env s d)
           = find (isCommandAvailable env) (getDefaultInterpreters d)
         \<and> fst (snd (resolveInterpreterCommand configuration env s d))
           = takeWhile (\<lambda>c. \<not> isCommandAvailable env c) (getDefaultInterpreters d)
               @ take 1 (dropWhile (\<lambda>c. \<not> isCommandAvailable env c) (getDefaultInterpreters d))"
proof -
  consider "interpreterSetting d = None" | "interpreterSetting d = Some []"
    | "interpreterSetting d = Some k" "k \<noteq> []" "fst (getQuickItConfigurationValue configuration k) = None"
    using assms by (cases "k = []") auto
  then show ?thesis
  proof cases
    case 1
    then show ?thesis by (simp add: resolveInterpreterCommand_def probeCandidates_find)
  next
    case 2
    then show ?thesis by (simp add: resolveInterpreterCommand_def probeCandidates_find)
  next
    case 3
    then show ?thesis
      using getQuickItSettingValue_fst [of configuration s k]
      by (cases "getQuickItSettingValue configuration s k")
         (simp add: resolveInterpreterCommand_def probeCandidates_find)
  qed
qed

lemma runScriptCommand_no_interpreter:
  assumes "fst (resolveInterpreterCommand configuration env s (itemDescriptor it)) = None"
  shows "runScriptCommand configuration env s runId events (Some it) =
           (None, (snd (snd (resolveInterpreterCommand configuration env s (itemDescriptor it))))
              \<lparr>shown := shown (snd (snd (resolveInterpreterCommand configuration env s (itemDescriptor it))))
                 @ [ErrorMessage (''No interpreter found for '' @ label (itemDescriptor it)
                                  @ ''. Configure one in QuickIt settings.'')]\<rparr>)"
  using assms
  by (cases "resolveInterpreterCommand configuration env s (itemDescriptor it)")
     (simp add: runScriptCommand_def)

lemma registered_resolve:
  assumes "interpreterSetting d = Some k" and "k \<noteq> []"
  shows "fst (resolveInterpreterCommand (registeredConfiguration dflt user ws wsf) env s d)
           = (case normalizeOptionalString (Some (case user k of None \<Rightarrow> dflt k | Some g \<Rightarrow> g)) of
                Some v \<Rightarrow> Some v
              | None \<Rightarrow> find (isCommandAvailable env) (getDefaultInterpreters d))
         \<and> fst (snd (resolveInterpreterCommand (registeredConfiguration dflt user ws wsf) env s d))
           = (case normalizeOptionalString (Some (case user k of None \<Rightarrow> dflt k | Some g \<Rightarrow> g)) of
                Some v \<Rightarrow> []
              | None \<Rightarrow> takeWhile (\<lambda>c. \<not> isCommandAvailable env c) (getDefaultInterpreters d)
                         @ take 1 (dropWhile (\<lambda>c. \<not> isCommandAvailable env c) (getDefaultInterpreters d)))"
proof (cases "normalizeOptionalString (Some (case user k of None \<Rightarrow> dflt k | Some g \<Rightarrow> g))")
  case None
  then have "interpreterSetting d = None \<or> interpreterSetting d = Some []
           \<or> (interpreterSetting d = Some k
              \<and> fst (getQuickItConfigurationValue (registeredConfiguration dflt user ws wsf) k) = None)"
    using assms by (simp add: registered_value)
  from resolveInterpreterCommand_probing [OF this, of env s] None show ?thesis
    by simp
next
  case (Some v)
  then have "fst (getQuickItConfigurationValue (registeredConfiguration dflt user ws wsf) k) = Some v"
    by (simp add: registered_value)
  from resolveInterpreterCommand_configured [OF assms this, of env s] Some show ?thesis
    by simp
qed

lemma blank_default_value:
  "trim dv = [] \<Longrightarrow>
     normalizeOptionalString (Some (case u of None \<Rightarrow> dv | Some g \<Rightarrow> g)) = normalizeOptionalString u"
  by (cases u) (simp_all add: normalizeOptionalString_def)

text \<open>
  Claim C2. Take a descriptor that names a settings key \<open>k\<close>, a registered setting
  with built-in default \<open>dflt k\<close> and user-level value \<open>user k\<close>. When the default is
  blank, as the documented default of every quickIt setting is, and the user-level
  value is not blank after trimming, \<open>resolveInterpreterCommand\<close> returns the trimmed
  user-level value and probes no candidate; when the user-level value is unset or
  blank, the default candidates are handed to the availability test in list order up
  to and including the first available one, which is the result, and the result is
  none when no candidate is available. For any default the same holds with the
  effective user-level value, the user-level value or else the default, in the place
  of the user-level value. For any configuration object: a value read for the key is
  returned at once with no candidate probed, a user-level value that is set and not
  blank is returned trimmed, and with no key or nothing read for it the candidates are
  probed in list order. When the result is none, \<open>runScriptCommand\<close> launches no task
  and shows the error that no interpreter was found for the descriptor.
\<close>

theorem resolveInterpreterCommand_order:
  "(interpreterSetting d = Some k \<and> k \<noteq> [] \<and> trim (dflt k) = []
      \<longrightarrow> fst (resolveInterpreterCommand (registeredConfiguration dflt user ws wsf) env s d)
            = (case normalizeOptionalString (user k) of
                 Some v \<Rightarrow> Some v
               | None \<Rightarrow> find (isCommandAvailable env) (getDefaultInterpreters d))
          \<and> fst (snd (resolveInterpreterCommand (registeredConfiguration dflt user ws wsf) env s d))
            = (case normalizeOptionalString (user k) of
                 Some v \<Rightarrow> []
               | None \<Rightarrow> takeWhile (\<lambda>c. \<not> isCommandAvailable env c) (getDefaultInterpreters d)
                          @ take 1 (dropWhile (\<lambda>c. \<not> isCommandAvailable env c)
                                      (getDefaultInterpreters d))))
   \<and> (interpreterSetting d = Some k \<and> k \<noteq> []
      \<longrightarrow> fst (resolveInterpreterCommand (registeredConfiguration dflt user ws wsf) env s d)
            = (case normalizeOptionalString (Some (case user k of None \<Rightarrow> dflt k | Some g \<Rightarrow> g)) of
                 Some v \<Rightarrow> Some v
               | None \<Rightarrow> find (isCommandAvailable env) (getDefaultInterpreters d))
          \<and> fst (snd (resolveInterpreterCommand (registeredConfiguration dflt user ws wsf) env s d))
            = (case normalizeOptionalString (Some (case user k of None \<Rightarrow> dflt k | Some g \<Rightarrow> g)) of
                 Some v \<Rightarrow> []
               | None \<Rightarrow> takeWhile (\<lambda>c. \<not> isCommandAvailable env c) (getDefaultInterpreters d)
                          @ take 1 (dropWhile (\<lambda>c. \<not> isCommandAvailable env c)
                                      (getDefaultInterpreters d))))
   \<and> (interpreterSetting d = Some k \<and> k \<noteq> [] \<and> fst (getQuickItConfigurationValue configuration k) = Some v
      \<longrightarrow> fst (resolveInterpreterCommand configuration env s d) = Some v
          \<and> fst (snd (resolveInterpreterCommand configuration env s d)) = [])
   \<and> (interpreterSetting d = Some k \<and> k \<noteq> [] \<and> inspect configuration k = Some i
        \<and> globalValue i = Some g \<and> trim g \<noteq> []
      \<longrightarrow> fst (resolveInterpreterCommand configuration env s d) = Some (trim g)
          \<and> fst (snd (resolveInterpreterCommand configuration env s d)) = [])
   \<and> (interpreterSetting d = None \<or> interpreterSetting d = Some []
        \<or> (interpreterSetting d = Some k \<and> fst (getQuickItConfigurationValue configuration k) = None)
      \<longrightarrow> fst (resolveInterpreterCommand configuration env s d)
            = find (isCommandAvailable env) (getDefaultInterpreters d)
          \<and> fst (snd (resolveInterpreterCommand configuration env s d))
            = takeWhile (\<lambda>c. \<not> isCommandAvailable env c) (getDefaultInterpreters d)
                @ take 1 (dropWhile (\<lambda>c. \<not> isCommandAvailable env c) (getDefaultInterpreters d)))
   \<and> (interpreterSetting d = Some k \<and> inspect configuration k = Some i
        \<and> defaultValue i = Some dv \<and> trim dv = [] \<and> (\<forall>g. globalValue i = Some g \<longrightarrow> trim g = [])
      \<longrightarrow> fst (resolveInterpreterCommand configuration env s d)
            = find (isCommandAvailable env) (getDefaultInterpreters d))
   \<and> (fst (resolveInterpreterCommand configuration env s (itemDescriptor it)) = None
      \<longrightarrow> fst (runScriptCommand configuration env s runId events (Some it)) = None
          \<and> shown (snd (runScriptCommand configuration env s runId events (Some it)))
            = shown (snd (snd (resolveInterpreterCommand configuration env s (itemDescriptor it))))
                @ [ErrorMessage (''No interpreter found for '' @ label (itemDescriptor it)
                                 @ ''. Configure one in QuickIt settings.'')])"
proof (intro conjI impI)
  assume a: "interpreterSetting d = Some k \<and> k \<noteq> [] \<and> trim (dflt k) = []"
  then have d: "interpreterSetting d = Some k" and k: "k \<noteq> []" and b: "trim (dflt k) = []"
    by auto
  note r = registered_resolve [OF d k, of dflt user ws wsf env s, unfolded blank_default_value [OF b]]
  show "fst (resolveInterpreterCommand (registeredConfiguration dflt user ws wsf) env s d)
            = (case normalizeOptionalString (user k) of
                 Some v \<Rightarrow> Some v
               | None \<Rightarrow> find (isCommandAvailable env) (getDefaultInterpreters d))"
    using r by (rule conjunct1)
  show "fst (snd (resolveInterpreterCommand (registeredConfiguration dflt user ws wsf) env s d))
            = (case normalizeOptionalString (user k) of
                 Some v \<Rightarrow> []
               | None \<Rightarrow> takeWhile (\<lambda>c. \<not> isCommandAvailable env c) (getDefaultInterpreters d)
                          @ take 1 (dropWhile (\<lambda>c. \<not> isCommandAvailable env c)
                                      (getDefaultInterpreters d)))"
    using r by (rule conjunct2)
next
  assume a: "interpreterSetting d = Some k \<and> k \<noteq> []"
  then have d: "interpreterSetting d = Some k" and k: "k \<noteq> []"
    by auto
  note r = registered_resolve [OF d k, of dflt user ws wsf env s]
  show "fst (resolveInterpreterCommand (registeredConfiguration dflt user ws wsf) env s d)
            = (case normalizeOptionalString (Some (case user k of None \<Rightarrow> dflt k | Some g \<Rightarrow> g)) of
                 Some v \<Rightarrow> Some v
               | None \<Rightarrow> find (isCommandAvailable env) (getDefaultInterpreters d))"
    using r by (rule conjunct1)
  show "fst (snd (resolveInterpreterCommand (registeredConfiguration dflt user ws wsf) env s d))
            = (case normalizeOptionalString (Some (case user k of None \<Rightarrow> dflt k | Some g \<Rightarrow> g)) of
                 Some v \<Rightarrow> []
               | None \<Rightarrow> takeWhile (\<lambda>c. \<not> isCommandAvailable env c) (getDefaultInterpreters d)
                          @ take 1 (dropWhile (\<lambda>c. \<not> isCommandAvailable env c)
                                      (getDefaultInterpreters d)))"
    using r by (rule conjunct2)
next
  assume a: "interpreterSetting d = Some k \<and> k \<noteq> [] \<and> fst (getQuickItConfigurationValue configuration k) = Some v"
  then have r: "resolveInterpreterCommand configuration env s d
           = (Some v, [], snd (getQuickItSettingValue configuration s k))"
    by (simp add: resolveInterpreterCommand_configured)
  show "fst (resolveInterpreterCommand configuration env s d) = Some v" by (simp add: r)
  show "fst (snd (resolveInterpreterCommand configuration env s d)) = []" by (simp add: r)
next
  assume a: "interpreterSetting d = Some k \<and> k \<noteq> [] \<and> inspect configuration k = Some i
        \<and> globalValue i = Some g \<and> trim g \<noteq> []"
  then have "fst (getQuickItConfigurationValue configuration k) = Some (trim g)"
    by (simp add: getQuickItConfigurationValue_def orElse_def normalizeOptionalString_def Let_def)
  with a have r: "resolveInterpreterCommand configuration env s d
           = (Some (trim g), [], snd (getQuickItSettingValue configuration s k))"
    by (simp add: resolveInterpreterCommand_configured)
  show "fst (resolveInterpreterCommand configuration env s d) = Some (trim g)" by (simp add: r)
  show "fst (snd (resolveInterpreterCommand configuration env s d)) = []" by (simp add: r)
next
  assume a: "interpreterSetting d = None \<or> interpreterSetting d = Some []
        \<or> (interpreterSetting d = Some k \<and> fst (getQuickItConfigurationValue configuration k) = None)"
  note p = resolveInterpreterCommand_probing [OF a, of env s]
  show "fst (resolveInterpreterCommand configuration env s d)
            = find (isCommandAvailable env) (getDefaultInterpreters d)"
    using p by (rule conjunct1)
  show "fst (snd (resolveInterpreterCommand configuration env s d))
            = takeWhile (\<lambda>c. \<not> isCommandAvailable env c) (getDefaultInterpreters d)
                @ take 1 (dropWhile (\<lambda>c. \<not> isCommandAvailable env c) (getDefaultInterpreters d))"
    using p by (rule conjunct2)
next
  assume a: "interpreterSetting d = Some k \<and> inspect configuration k = Some i
        \<and> defaultValue i = Some dv \<and> trim dv = [] \<and> (\<forall>g. globalValue i = Some g \<longrightarrow> trim g = [])"
  then have "fst (getQuickItConfigurationValue configuration k) = None"
    by (cases "globalValue i")
       (simp_all add: getQuickItConfigurationValue_def orElse_def normalizeOptionalString_def Let_def)
  with a have "interpreterSetting d = None \<or> interpreterSetting d = Some []
        \<or> (interpreterSetting d = Some k \<and> fst (getQuickItConfigurationValue configuration k) = None)"
    by simp
  from resolveInterpreterCommand_probing [OF this, of env s]
  show "fst (resolveInterpreterCommand configuration env s d)
            = find (isCommandAvailable env) (getDefaultInterpreters d)"
    by (rule conjunct1)
next
  assume a: "fst (resolveInterpreterCommand configuration env s (itemDescriptor it)) = None"
  note r = runScriptCommand_no_interpreter [OF a, of runId events]
  show "fst (runScriptCommand configuration env s runId events (Some it)) = None"
    by (simp add: r)
  show "shown (snd (runScriptCommand configuration env s runId events (Some it)))
            = shown (snd (snd (resolveInterpreterCommand configuration env s (itemDescriptor it))))
                @ [ErrorMessage (''No interpreter found for '' @ label (itemDescriptor it)
                                 @ ''. Configure one in QuickIt settings.'')]"
    by (simp add: r)
qed

lemma sample_probes:
  "\<not> isCommandAvailable sampleEnvironment ''pwsh''"
  "isCommandAvailable sampleEnvironment ''powershell''"
  "\<not> isCommandAvailable barePath ''pwsh''"
  "\<not> isCommandAvailable barePath ''powershell''"
  by (simp_all add: token_eval sampleEnvironment_def barePath_def)

lemma powershell_unset:
  "interpreterSetting (itemDescriptor powershellItem) = Some ''interpreters.powershell''
   \<and> getDefaultInterpreters (itemDescriptor powershellItem) = [''pwsh'', ''powershell'']
   \<and> label (itemDescriptor powershellItem) = ''PowerShell (.ps1)''
   \<and> getQuickItConfigurationValue userSettings ''interpreters.powershell'' = (None, False)"
  by (simp add: powershellItem_def BUILTIN_SCRIPT_DESCRIPTORS_def getQuickItConfigurationValue_def
        userSettings_def hostConfiguration_def normalizeOptionalString_def orElse_def trim_def Let_def)

lemma powershell_session:
  "snd (snd (resolveInterpreterCommand userSettings env activated (itemDescriptor powershellItem)))
     = activated"
  using powershell_unset
  by (simp add: resolveInterpreterCommand_def getQuickItSettingValue_def split: prod.splits)

text \<open>
  Empty defaults and the user-level value \<open>' python3 '\<close>: \<open>python3\<close> for the Python
  item, nothing probed. The PowerShell item with nothing configured: \<open>pwsh\<close> is
  probed and missing, \<open>powershell\<close> is probed and taken. With an empty PATH: no task
  and the error message.
\<close>

theorem resolveInterpreterCommand_order_witness:
  "fst (resolveInterpreterCommand
          (registeredConfiguration (\<lambda>k. [])
             (\<lambda>k. if k = ''interpreters.python'' then Some '' python3 '' else None)
             (\<lambda>k. None) (\<lambda>k. None))
          sampleEnvironment activated (itemDescriptor sampleItem)) = Some ''python3''
   \<and> fst (snd (resolveInterpreterCommand
          (registeredConfiguration (\<lambda>k. [])
             (\<lambda>k. if k = ''interpreters.python'' then Some '' python3 '' else None)
             (\<lambda>k. None) (\<lambda>k. None))
          sampleEnvironment activated (itemDescriptor sampleItem))) = []
   \<and> fst (resolveInterpreterCommand userSettings sampleEnvironment activated (itemDescriptor sampleItem))
     = Some ''python3''
   \<and> fst (snd (resolveInterpreterCommand userSettings sampleEnvironment activated (itemDescriptor sampleItem)))
     = []
   \<and> fst (resolveInterpreterCommand userSettings sampleEnvironment activated (itemDescriptor powershellItem))
     = Some ''powershell''
   \<and> fst (snd (resolveInterpreterCommand userSettings sampleEnvironment activated
                  (itemDescriptor powershellItem)))
     = [''pwsh'', ''powershell'']
   \<and> fst (runScriptCommand userSettings barePath activated ''r1'' [] (Some powershellItem)) = None
   \<and> shown (snd (runScriptCommand userSettings barePath activated ''r1'' [] (Some powershellItem)))
     = [ErrorMessage ''No interpreter found for PowerShell (.ps1). Configure one in QuickIt settings.'']"
proof -
  let ?py = "\<lparr>defaultValue = Some [], globalValue = Some '' python3 '',
              workspaceValue = None, workspaceFolderValue = None\<rparr>"
  have key: "interpreterSetting (itemDescriptor sampleItem) = Some ''interpreters.python''
        \<and> ''interpreters.python'' \<noteq> [] \<and> trim ((\<lambda>k. []) ''interpreters.python'') = []"
    by (simp add: sampleItem_def BUILTIN_SCRIPT_DESCRIPTORS_def trim_def)
  have user: "normalizeOptionalString
                 ((\<lambda>k. if k = ''interpreters.python'' then Some '' python3 '' else None)
                    ''interpreters.python'') = Some ''python3''"
    by (simp add: normalizeOptionalString_def trim_def isWhiteSpace_def)
  note registered = resolveInterpreterCommand_order
    [where d = "itemDescriptor sampleItem" and k = "''interpreters.python''" and dflt = "\<lambda>k. []"
       and user = "\<lambda>k. if k = ''interpreters.python'' then Some '' python3 '' else None"
       and ws = "\<lambda>k. None" and wsf = "\<lambda>k. None" and env = sampleEnvironment and s = activated,
     THEN conjunct1, rule_format, OF key, unfolded user]
  have py: "interpreterSetting (itemDescriptor sampleItem) = Some ''interpreters.python''
        \<and> ''interpreters.python'' \<noteq> [] \<and> inspect userSettings ''interpreters.python'' = Some ?py
        \<and> globalValue ?py = Some '' python3 '' \<and> trim '' python3 '' \<noteq> []"
    by (simp add: sampleItem_def BUILTIN_SCRIPT_DESCRIPTORS_def userSettings_def hostConfiguration_def
          trim_def isWhiteSpace_def)
  have tr: "trim '' python3 '' = ''python3''"
    by (simp add: trim_def isWhiteSpace_def)
  note configured = resolveInterpreterCommand_order
    [where d = "itemDescriptor sampleItem" and k = "''interpreters.python''" and i = "?py"
       and g = "'' python3 ''" and configuration = userSettings and env = sampleEnvironment
       and s = activated,
     THEN conjunct2, THEN conjunct2, THEN conjunct2, THEN conjunct1, rule_format, OF py, unfolded tr]
  have ps: "interpreterSetting (itemDescriptor powershellItem) = None
        \<or> interpreterSetting (itemDescriptor powershellItem) = Some []
        \<or> (interpreterSetting (itemDescriptor powershellItem) = Some ''interpreters.powershell''
           \<and> fst (getQuickItConfigurationValue userSettings ''interpreters.powershell'') = None)"
    using powershell_unset by simp
  note probing = resolveInterpreterCommand_order
    [where d = "itemDescriptor powershellItem" and k = "''interpreters.powershell''"
       and configuration = userSettings and env = sampleEnvironment and s = activated,
     THEN conjunct2, THEN conjunct2, THEN conjunct2, THEN conjunct2, THEN conjunct1, rule_format, OF ps]
  have probed: "fst (resolveInterpreterCommand userSettings sampleEnvironment activated
                       (itemDescriptor powershellItem)) = Some ''powershell''
      \<and> fst (snd (resolveInterpreterCommand userSettings sampleEnvironment activated
                       (itemDescriptor powershellItem))) = [''pwsh'', ''powershell'']"
    using probing powershell_unset sample_probes by simp
  note none = resolveInterpreterCommand_order
    [where d = "itemDescriptor powershellItem" and k = "''interpreters.powershell''"
       and configuration = userSettings and env = barePath and s = activated,
     THEN conjunct2, THEN conjunct2, THEN conjunct2, THEN conjunct2, THEN conjunct1, rule_format, OF ps]
  have missing: "fst (resolveInterpreterCommand userSettings barePath activated
                        (itemDescriptor powershellItem)) = None"
    using none powershell_unset sample_probes by simp
  note reported = resolveInterpreterCommand_order
    [where it = powershellItem and configuration = userSettings and env = barePath and s = activated
       and runId = "''r1''" and events = "[]",
     THEN conjunct2, THEN conjunct2, THEN conjunct2, THEN conjunct2, THEN conjunct2, THEN conjunct2,
     rule_format, OF missing]
  have told: "fst (runScriptCommand userSettings barePath activated ''r1'' [] (Some powershellItem)) = None
      \<and> shown (snd (runScriptCommand userSettings barePath activated ''r1'' [] (Some powershellItem)))
        = [ErrorMessage ''No interpreter found for PowerShell (.ps1). Configure one in QuickIt settings.'']"
    using reported [unfolded powershell_session] powershell_unset by (simp add: activated_def)
  from registered configured probed told show ?thesis by (intro conjI) simp_all
qed

end
